theory Spec2Isabelle
  imports
    Complex_Main
    "HOL-Library.Sublist"
    "HOL-Library.Char_ord"
    "HOL-Library.List_Lexorder"
    "HOL-Library.Log_Nat"
begin

section \<open>Chemical inventory and flow-rate calculator: a shallow embedding\<close>

text \<open>
  The TypeScript sources are React components; the logic that matters sits in a handful of
  state transitions and pure derivations. Each of them is translated below as a HOL function
  from the previous state (or the component's props) to the next state (or the derived value).

  Conventions of the embedding:
  \<^item> A JavaScript \<^verbatim>\<open>number\<close> is a rational (\<^typ>\<open>rat\<close>). A definition named \<open>..._binary64\<close>
    rounds every arithmetic result to binary64 as IEEE-754 does; the balance update and the
    low-stock threshold have such a definition beside the one in exact arithmetic, and the
    flow-rate formula, whose value depends on the rounding, has only that one. \<^verbatim>\<open>NaN\<close> and the
    infinities are not part of the model.
  \<^item> A JavaScript string is a \<^typ>\<open>string\<close>, a \<^typ>\<open>char\<close> for each code unit.
    \<^verbatim>\<open>toLowerCase\<close> is a parameter of the functions that call it.
  \<^item> \<^verbatim>\<open>Date.now()\<close> and \<^verbatim>\<open>new Date()\<close> read a clock; the reading (milliseconds since the epoch)
    is an explicit argument of every function that reads it.
  \<^item> \<^verbatim>\<open>setState(prev => next)\<close> is the function from \<open>prev\<close> to \<open>next\<close>; toasts and the
    writes to local storage do not change the state and are left out.
\<close>

subsection \<open>Record types (\<^verbatim>\<open>types/chemical.ts\<close>)\<close>

datatype Unit = Liters | Kilograms

datatype FilterBy = ByName | ByDate | ByLocation

text \<open>
  \<^verbatim>\<open>Omit<Chemical, 'id' | 'currentBalance'>\<close> is the parent record, \<^verbatim>\<open>Chemical\<close> extends it
  with the two omitted fields; likewise for \<^verbatim>\<open>Omit<ChemicalUsage, 'id'>\<close>. The two \<^verbatim>\<open>id\<close>
  fields and the second \<^verbatim>\<open>remarks\<close> field carry a prefix, because a field name is a constant.
\<close>

record ChemicalInput =
  dateReceived :: string
  name :: string
  quantity :: rat
  unit :: Unit
  supplier :: string
  expiryDate :: string
  storageLocation :: string
  remarks :: "string option"

record Chemical = ChemicalInput +
  chem_id :: string
  currentBalance :: rat

record UsageInput =
  chemicalId :: string
  chemicalName :: string
  quantityUsed :: rat
  dateUsed :: string
  personInCharge :: string
  usage_remarks :: "string option"

record ChemicalUsage = UsageInput +
  usage_id :: string

record ChemicalInventoryState =
  chemicals :: "Chemical list"
  usageHistory :: "ChemicalUsage list"
  searchTerm :: string
  filterBy :: FilterBy
  isDarkMode :: bool

subsection \<open>JavaScript built-ins used by the components\<close>

definition digit_char :: "nat \<Rightarrow> char" where
  "digit_char d = char_of (48 + d)"

text \<open>The decimal numeral of a natural number, most significant digit first.\<close>

function decimal :: "nat \<Rightarrow> string" where
  "decimal n = (if n < 10 then [digit_char n] else decimal (n div 10) @ [digit_char (n mod 10)])"
  by pat_completeness auto
termination
  by (relation "measure (\<lambda>n. n)") auto

declare decimal.simps [simp del]

text \<open>
  \<^verbatim>\<open>Number.prototype.toString\<close> on an integer-valued number of magnitude at most \<open>2^53\<close> (every
  clock reading is one) prints the integer in decimal, with a leading minus sign if negative.
\<close>

definition int_toString :: "int \<Rightarrow> string" where
  "int_toString i = (if i < 0 then CHR ''-'' # decimal (nat (- i)) else decimal (nat i))"

text \<open>
  On any other number \<^verbatim>\<open>toString\<close> prints the shortest decimal that reads back as the same
  binary64 value; that part is the parameter \<open>shortest\<close>.
\<close>

definition Number_toString :: "(rat \<Rightarrow> string) \<Rightarrow> rat \<Rightarrow> string" where
  "Number_toString shortest x =
     (if of_int \<lfloor>x\<rfloor> = x \<and> \<bar>x\<bar> \<le> 2 ^ 53 then int_toString \<lfloor>x\<rfloor> else shortest x)"

text \<open>
  \<^verbatim>\<open>x.toFixed(2)\<close>, for \<open>\<bar>x\<bar>\<close> below \<open>10^21\<close>: the integer \<open>n\<close> with \<open>n / 100\<close> nearest to \<open>\<bar>x\<bar>\<close>, the
  larger one on a tie, printed with the last two digits after the point, the sign in front.
  \<open>toFixed2_value\<close> is the number the string denotes.
\<close>

definition toFixed2_digits :: "rat \<Rightarrow> nat" where
  "toFixed2_digits x = nat \<lfloor>\<bar>x\<bar> * 100 + 1 / 2\<rfloor>"

definition toFixed2 :: "rat \<Rightarrow> string" where
  "toFixed2 x =
     (let n = toFixed2_digits x
      in (if x < 0 then [CHR ''-''] else []) @ decimal (n div 100) @ [CHR ''.'']
           @ [digit_char (n div 10 mod 10), digit_char (n mod 10)])"

definition toFixed2_value :: "rat \<Rightarrow> rat" where
  "toFixed2_value x = (if x < 0 then - 1 else 1) * of_nat (toFixed2_digits x) / 100"

text \<open>
  Division of numbers: a zero divisor gives \<^verbatim>\<open>Infinity\<close> or \<^verbatim>\<open>NaN\<close> in JavaScript, which no
  rational stands for, so the quotient is \<open>None\<close> there.
\<close>

definition js_div :: "rat \<Rightarrow> rat \<Rightarrow> rat option" where
  "js_div a b = (if b = 0 then None else Some (a / b))"

text \<open>
  The binary64 value of a rational: round to nearest, ties to even, at 53 significant bits
  (at the fixed spacing \<open>2^-1074\<close> below \<open>2^-1022\<close>). \<open>floor_log2 x\<close> is the exponent \<open>e\<close> with
  \<open>2^e \<le> x < 2^(e+1)\<close> for positive \<open>x\<close>. Overflow to infinity is outside the model.
\<close>

definition floor_log2 :: "rat \<Rightarrow> int" where
  "floor_log2 x =
     (let (p, q) = quotient_of x; k = bitlen p - bitlen q
      in if 2 powi k \<le> x then k else k - 1)"

definition round_half_even :: "rat \<Rightarrow> int" where
  "round_half_even x =
     (let n = \<lfloor>x\<rfloor>; r = x - of_int n
      in if r < 1 / 2 then n else if 1 / 2 < r then n + 1 else if even n then n else n + 1)"

definition binary64 :: "rat \<Rightarrow> rat" where
  "binary64 x =
     (if x = 0 then 0
      else let e = max (floor_log2 \<bar>x\<bar>) (- 1022); ulp = 2 powi (e - 52)
           in of_int (round_half_even (x / ulp)) * ulp)"




text \<open>\<^verbatim>\<open>Array.prototype.join\<close>.\<close>

fun join :: "string \<Rightarrow> string list \<Rightarrow> string" where
  "join sep [] = []"
| "join sep [x] = x"
| "join sep (x # y # ys) = x @ sep @ join sep (y # ys)"

text \<open>
  \<^verbatim>\<open>Array.prototype.sort(cmp)\<close>. ECMAScript requires the sort to be stable, and for a
  consistent comparator the sorted, stable permutation of the input is unique: it is the one
  insertion sort computes, inserting from the right end and placing an element in front of
  the elements it does not exceed.
\<close>

fun insert_by :: "('a \<Rightarrow> 'a \<Rightarrow> int) \<Rightarrow> 'a \<Rightarrow> 'a list \<Rightarrow> 'a list" where
  "insert_by cmp x [] = [x]"
| "insert_by cmp x (y # ys) = (if cmp x y \<le> 0 then x # y # ys else y # insert_by cmp x ys)"

definition Array_sort :: "('a \<Rightarrow> 'a \<Rightarrow> int) \<Rightarrow> 'a list \<Rightarrow> 'a list" where
  "Array_sort cmp xs = foldr (insert_by cmp) xs []"

text \<open>\<open>cmp_le cmp a b\<close>: the comparator does not put \<open>a\<close> after \<open>b\<close>.\<close>

definition cmp_le :: "('a \<Rightarrow> 'a \<Rightarrow> int) \<Rightarrow> 'a \<Rightarrow> 'a \<Rightarrow> bool" where
  "cmp_le cmp a b = (cmp a b \<le> 0)"

subsection \<open>Mutation engine (\<^verbatim>\<open>components/ChemicalInventory.tsx\<close>)\<close>

definition initialState :: ChemicalInventoryState where
  "initialState =
     \<lparr>chemicals = [], usageHistory = [], searchTerm = [], filterBy = ByName, isDarkMode = False\<rparr>"

text \<open>
  \<^verbatim>\<open>addChemical\<close>: the new lot is the input spread, with \<^verbatim>\<open>id: Date.now().toString()\<close> and
  \<^verbatim>\<open>currentBalance: chemical.quantity\<close>; it is appended to \<^verbatim>\<open>prev.chemicals\<close>.
\<close>

definition addChemical :: "int \<Rightarrow> ChemicalInput \<Rightarrow> ChemicalInventoryState \<Rightarrow> ChemicalInventoryState" where
  "addChemical now chemical prev =
     (let newChemical = ChemicalInput.extend chemical (Chemical.fields (int_toString now) (quantity chemical))
      in prev\<lparr>chemicals := chemicals prev @ [newChemical]\<rparr>)"

text \<open>
  \<^verbatim>\<open>updateInventory\<close> (the spec's \<open>recordUsage\<close>): the new event is the input spread with
  \<^verbatim>\<open>id: Date.now().toString()\<close>; the history gets it at the end, and \<^verbatim>\<open>prev.chemicals.map\<close>
  rewrites the balance of every lot whose id is the usage's \<^verbatim>\<open>chemicalId\<close>. \<open>useChemical\<close> is
  the arrow function given to \<^verbatim>\<open>map\<close>.
\<close>

definition useChemical :: "UsageInput \<Rightarrow> Chemical \<Rightarrow> Chemical" where
  "useChemical usage chemical =
     (if chem_id chemical = chemicalId usage
      then chemical\<lparr>currentBalance := max 0 (currentBalance chemical - quantityUsed usage)\<rparr>
      else chemical)"

definition updateInventory :: "int \<Rightarrow> UsageInput \<Rightarrow> ChemicalInventoryState \<Rightarrow> ChemicalInventoryState" where
  "updateInventory now usage prev =
     (let newUsage = UsageInput.extend usage (ChemicalUsage.fields (int_toString now))
      in prev\<lparr>usageHistory := usageHistory prev @ [newUsage],
              chemicals := map (useChemical usage) (chemicals prev)\<rparr>)"

text \<open>A run of the two operations, each with the clock reading of its call, from the empty state.\<close>

datatype Operation = Add int ChemicalInput | RecordUsage int UsageInput

fun apply_op :: "ChemicalInventoryState \<Rightarrow> Operation \<Rightarrow> ChemicalInventoryState" where
  "apply_op s (Add now chemical) = addChemical now chemical s"
| "apply_op s (RecordUsage now usage) = updateInventory now usage s"

definition run :: "Operation list \<Rightarrow> ChemicalInventoryState" where
  "run ops = foldl apply_op initialState ops"

text \<open>
  The quantities an operation carries. \<open>positive_usage\<close> asks a positive \<^verbatim>\<open>quantityUsed\<close> of
  every usage; \<open>valid_quantities\<close> asks, besides, that an added lot's \<^verbatim>\<open>quantity\<close> is not
  negative.
\<close>

fun valid_quantities :: "Operation \<Rightarrow> bool" where
  "valid_quantities (Add now chemical) = (0 \<le> quantity chemical)"
| "valid_quantities (RecordUsage now usage) = (0 < quantityUsed usage)"

fun positive_usage :: "Operation \<Rightarrow> bool" where
  "positive_usage (Add now chemical) = True"
| "positive_usage (RecordUsage now usage) = (0 < quantityUsed usage)"

definition balance_in_range :: "Chemical \<Rightarrow> bool" where
  "balance_in_range c = (0 \<le> currentBalance c \<and> currentBalance c \<le> quantity c)"

text \<open>
  The same transition with the difference rounded to binary64, as JavaScript computes it, and
  the runs of it. \<open>valid_numbers\<close> asks of an added lot that its quantity is not negative and
  is a binary64 value, and of a usage that its quantity is positive.
\<close>

definition useChemical_binary64 :: "UsageInput \<Rightarrow> Chemical \<Rightarrow> Chemical" where
  "useChemical_binary64 usage chemical =
     (if chem_id chemical = chemicalId usage
      then chemical\<lparr>currentBalance := max 0 (binary64 (currentBalance chemical - quantityUsed usage))\<rparr>
      else chemical)"

definition updateInventory_binary64 :: "int \<Rightarrow> UsageInput \<Rightarrow> ChemicalInventoryState \<Rightarrow> ChemicalInventoryState" where
  "updateInventory_binary64 now usage prev =
     (let newUsage = UsageInput.extend usage (ChemicalUsage.fields (int_toString now))
      in prev\<lparr>usageHistory := usageHistory prev @ [newUsage],
              chemicals := map (useChemical_binary64 usage) (chemicals prev)\<rparr>)"

fun apply_op_binary64 :: "ChemicalInventoryState \<Rightarrow> Operation \<Rightarrow> ChemicalInventoryState" where
  "apply_op_binary64 s (Add now chemical) = addChemical now chemical s"
| "apply_op_binary64 s (RecordUsage now usage) = updateInventory_binary64 now usage s"

definition run_binary64 :: "Operation list \<Rightarrow> ChemicalInventoryState" where
  "run_binary64 ops = foldl apply_op_binary64 initialState ops"

fun valid_numbers :: "Operation \<Rightarrow> bool" where
  "valid_numbers (Add now chemical) = (0 \<le> quantity chemical \<and> binary64 (quantity chemical) = quantity chemical)"
| "valid_numbers (RecordUsage now usage) = (0 < quantityUsed usage)"

definition balance_is_number :: "Chemical \<Rightarrow> bool" where
  "balance_is_number c =
     (0 \<le> currentBalance c \<and> currentBalance c \<le> quantity c \<and> binary64 (currentBalance c) = currentBalance c)"

subsection \<open>The lot form (\<^verbatim>\<open>AddChemicalForm\<close>)\<close>

text \<open>
  \<^verbatim>\<open>chemicalSchema\<close>, the zod schema of the form: \<^verbatim>\<open>z.string().min(1, ...)\<close> asks for a string
  of at least one code unit and \<^verbatim>\<open>z.number().min(0.01, ...)\<close> for a number not below the
  literal \<^verbatim>\<open>0.01\<close>, which is the binary64 value of \<open>1/100\<close>. The unit is one of the two of
  the enumeration by its type, and the remarks are optional.
\<close>

definition chemicalSchema :: "ChemicalInput \<Rightarrow> bool" where
  "chemicalSchema data =
     (1 \<le> length (dateReceived data)
      \<and> 1 \<le> length (name data)
      \<and> binary64 (1 / 100) \<le> quantity data
      \<and> 1 \<le> length (supplier data)
      \<and> 1 \<le> length (expiryDate data)
      \<and> 1 \<le> length (storageLocation data))"

text \<open>
  Submitting the form: \<^verbatim>\<open>handleSubmit(onFormSubmit)\<close> runs the resolver of the schema on the
  entered data and calls \<^verbatim>\<open>onFormSubmit\<close>, which calls the \<^verbatim>\<open>onSubmit\<close> property, only if
  the data pass; if they do not, it shows the messages and the state stays as it is. The
  inventory component gives \<^verbatim>\<open>addChemical\<close> as \<^verbatim>\<open>onSubmit\<close>, and no other place calls it.
  \<^verbatim>\<open>reset()\<close> and \<^verbatim>\<open>onCancel()\<close>, which follow, clear the fields of the form and hide it;
  neither is part of the inventory state.
\<close>

definition AddChemicalForm ::
  "(ChemicalInput \<Rightarrow> ChemicalInventoryState \<Rightarrow> ChemicalInventoryState)
     \<Rightarrow> ChemicalInput \<Rightarrow> ChemicalInventoryState \<Rightarrow> ChemicalInventoryState" where
  "AddChemicalForm onSubmit data prev = (if chemicalSchema data then onSubmit data prev else prev)"

text \<open>
  A run of the two operations as the inventory component offers them: \<open>Add now data\<close> submits
  the lot form with \<open>data\<close> at the clock reading \<open>now\<close>, \<open>RecordUsage now usage\<close> calls
  \<^verbatim>\<open>updateInventory\<close>. \<open>accepted\<close> tells the operations that reach the mutation engine.
\<close>

fun submit_op :: "ChemicalInventoryState \<Rightarrow> Operation \<Rightarrow> ChemicalInventoryState" where
  "submit_op s (Add now data) = AddChemicalForm (addChemical now) data s"
| "submit_op s (RecordUsage now usage) = updateInventory now usage s"

definition run_submit :: "Operation list \<Rightarrow> ChemicalInventoryState" where
  "run_submit ops = foldl submit_op initialState ops"

fun accepted :: "Operation \<Rightarrow> bool" where
  "accepted (Add now data) = chemicalSchema data"
| "accepted (RecordUsage now usage) = True"

text \<open>
  The same run with the difference rounded to binary64. There every quantity entered is a
  binary64 value, which is what \<open>quantity_is_number\<close> says of an operation.
\<close>

fun submit_op_binary64 :: "ChemicalInventoryState \<Rightarrow> Operation \<Rightarrow> ChemicalInventoryState" where
  "submit_op_binary64 s (Add now data) = AddChemicalForm (addChemical now) data s"
| "submit_op_binary64 s (RecordUsage now usage) = updateInventory_binary64 now usage s"

definition run_submit_binary64 :: "Operation list \<Rightarrow> ChemicalInventoryState" where
  "run_submit_binary64 ops = foldl submit_op_binary64 initialState ops"

fun quantity_is_number :: "Operation \<Rightarrow> bool" where
  "quantity_is_number (Add now data) = (binary64 (quantity data) = quantity data)"
| "quantity_is_number (RecordUsage now usage) = True"

subsection \<open>Derivation engine (\<^verbatim>\<open>components/InventoryTable.tsx\<close>)\<close>



text \<open>
  \<^verbatim>\<open>sortBy\<close> is a \<^verbatim>\<open>keyof Chemical\<close>. \<^verbatim>\<open>handleSort\<close>, the only function that sets it, is called
  by the table header with \<^verbatim>\<open>'name'\<close>, \<^verbatim>\<open>'currentBalance'\<close>, \<^verbatim>\<open>'expiryDate'\<close> and
  \<^verbatim>\<open>'storageLocation'\<close> (\<^verbatim>\<open>'name'\<close> is also the initial value). The type below has every key
  whose values are all strings or all numbers. It leaves out \<^verbatim>\<open>'remarks'\<close>: an absent remark
  compares false with everything, the comparator is then inconsistent, and ECMAScript leaves
  the order of such a sort to the implementation. \<open>field_less sortBy a b\<close> is
  \<^verbatim>\<open>a[sortBy] < b[sortBy]\<close>: strings compare by code units, numbers by value.
\<close>

definition unit_string :: "Unit \<Rightarrow> string" where
  "unit_string u = (case u of Liters \<Rightarrow> ''Liters'' | Kilograms \<Rightarrow> ''Kilograms'')"

datatype SortField =
  SortId | SortDateReceived | SortName | SortQuantity | SortUnit | SortSupplier
  | SortExpiryDate | SortStorageLocation | SortCurrentBalance

datatype SortOrder = Asc | Desc

fun field_less :: "SortField \<Rightarrow> Chemical \<Rightarrow> Chemical \<Rightarrow> bool" where
  "field_less SortId a b = (chem_id a < chem_id b)"
| "field_less SortDateReceived a b = (dateReceived a < dateReceived b)"
| "field_less SortName a b = (name a < name b)"
| "field_less SortQuantity a b = (quantity a < quantity b)"
| "field_less SortUnit a b = (unit_string (unit a) < unit_string (unit b))"
| "field_less SortSupplier a b = (supplier a < supplier b)"
| "field_less SortExpiryDate a b = (expiryDate a < expiryDate b)"
| "field_less SortStorageLocation a b = (storageLocation a < storageLocation b)"
| "field_less SortCurrentBalance a b = (currentBalance a < currentBalance b)"

definition compareChemicals :: "SortField \<Rightarrow> SortOrder \<Rightarrow> Chemical \<Rightarrow> Chemical \<Rightarrow> int" where
  "compareChemicals sortBy sortOrder a b =
     (if field_less sortBy a b then (if sortOrder = Asc then - 1 else 1)
      else if field_less sortBy b a then (if sortOrder = Asc then 1 else - 1)
      else 0)"

definition sortedChemicals :: "SortField \<Rightarrow> SortOrder \<Rightarrow> Chemical list \<Rightarrow> Chemical list" where
  "sortedChemicals sortBy sortOrder filtered = Array_sort (compareChemicals sortBy sortOrder) filtered"

definition isLowStock :: "Chemical \<Rightarrow> bool" where
  "isLowStock chemical = (currentBalance chemical \<le> quantity chemical * (1 / 10))"

text \<open>The same test with the product rounded to binary64; \<^verbatim>\<open>0.1\<close> is the binary64 value of \<open>1/10\<close>.\<close>

definition isLowStock_binary64 :: "Chemical \<Rightarrow> bool" where
  "isLowStock_binary64 chemical =
     (currentBalance chemical \<le> binary64 (quantity chemical * binary64 (1 / 10)))"

text \<open>
  \<^verbatim>\<open>new Date(s)\<close> parses a string to a time value (milliseconds since the epoch) or to an
  invalid date, which compares false with everything; the parser is the parameter
  \<open>Date_parse\<close>, with \<open>None\<close> for the invalid date. \<open>today\<close> is \<^verbatim>\<open>new Date().getTime()\<close>.
  Time values are integers; the end of the range of \<^verbatim>\<open>Date\<close> (the year 275760) is not modelled.
\<close>

definition isNearExpiry :: "(string \<Rightarrow> int option) \<Rightarrow> int \<Rightarrow> Chemical \<Rightarrow> bool" where
  "isNearExpiry Date_parse today chemical =
     (let thirtyDaysFromNow = today + 30 * 24 * 60 * 60 * 1000
      in case Date_parse (expiryDate chemical) of
           None \<Rightarrow> False
         | Some expiry \<Rightarrow> expiry \<le> thirtyDaysFromNow)"

text \<open>A day in milliseconds, as the component writes it.\<close>

definition day_ms :: int where
  "day_ms = 24 * 60 * 60 * 1000"

text \<open>\<^verbatim>\<open>getAlerts\<close> of \<^verbatim>\<open>ChemicalInventory.tsx\<close>: the alerts each lot pushes, in collection order.\<close>

definition alertsOf :: "(string \<Rightarrow> int option) \<Rightarrow> (rat \<Rightarrow> string) \<Rightarrow> int \<Rightarrow> Chemical \<Rightarrow> string list" where
  "alertsOf Date_parse shortest today chemical =
     (let thirtyDaysFromNow = today + 30 * 24 * 60 * 60 * 1000;
          lowStockThreshold = quantity chemical * (1 / 10)
      in (if (case Date_parse (expiryDate chemical) of
                None \<Rightarrow> False | Some expiry \<Rightarrow> expiry \<le> thirtyDaysFromNow)
          then [name chemical @ '' expires on '' @ expiryDate chemical] else [])
       @ (if currentBalance chemical \<le> lowStockThreshold
          then [name chemical @ '' is low in stock (''
                 @ Number_toString shortest (currentBalance chemical) @ '' ''
                 @ unit_string (unit chemical) @ '')''] else []))"

definition getAlerts :: "(string \<Rightarrow> int option) \<Rightarrow> (rat \<Rightarrow> string) \<Rightarrow> int \<Rightarrow> Chemical list \<Rightarrow> string list" where
  "getAlerts Date_parse shortest today cs = concat (map (alertsOf Date_parse shortest today) cs)"

subsection \<open>Export formatter (\<^verbatim>\<open>ExportUtils.exportToExcel\<close>)\<close>

definition quoted :: "string \<Rightarrow> string" where
  "quoted cell = [CHR 0x22] @ cell @ [CHR 0x22]"

definition or_empty :: "string option \<Rightarrow> string" where
  "or_empty r = (case r of None \<Rightarrow> [] | Some t \<Rightarrow> t)"

definition chemicalHeaders :: "string list" where
  "chemicalHeaders = [''Chemical Name'', ''Current Balance'', ''Unit'', ''Original Quantity'',
     ''Supplier'', ''Date Received'', ''Expiry Date'', ''Storage Location'', ''Remarks'']"

definition usageHeaders :: "string list" where
  "usageHeaders = [''Chemical Name'', ''Quantity Used'', ''Date Used'', ''Person In Charge'', ''Remarks'']"

definition chemicalRow :: "(rat \<Rightarrow> string) \<Rightarrow> Chemical \<Rightarrow> string list" where
  "chemicalRow shortest chemical =
     [name chemical,
      Number_toString shortest (currentBalance chemical),
      unit_string (unit chemical),
      Number_toString shortest (quantity chemical),
      supplier chemical,
      dateReceived chemical,
      expiryDate chemical,
      storageLocation chemical,
      or_empty (remarks chemical)]"

definition usageRow :: "(rat \<Rightarrow> string) \<Rightarrow> ChemicalUsage \<Rightarrow> string list" where
  "usageRow shortest usage =
     [chemicalName usage,
      Number_toString shortest (quantityUsed usage),
      dateUsed usage,
      personInCharge usage,
      or_empty (usage_remarks usage)]"

definition csvLine :: "string list \<Rightarrow> string" where
  "csvLine row = join '','' (map quoted row)"

text \<open>
  \<^verbatim>\<open>ExportUtils.exportToExcel\<close>: the text \<^verbatim>\<open>fullCSV\<close> handed to the download. \<open>generated\<close> is
  \<^verbatim>\<open>new Date().toLocaleString()\<close>.
\<close>

definition exportToExcel :: "(rat \<Rightarrow> string) \<Rightarrow> string \<Rightarrow> Chemical list \<Rightarrow> ChemicalUsage list \<Rightarrow> string" where
  "exportToExcel shortest generated cs usages =
     (let chemicalRows = map (chemicalRow shortest) cs;
          usageRows = map (usageRow shortest) usages;
          chemicalCSV = join [CHR 0x0A] (join '','' chemicalHeaders # map csvLine chemicalRows);
          usageCSV = join [CHR 0x0A] (join '','' usageHeaders # map csvLine usageRows)
      in join [CHR 0x0A]
           [''CHEMICAL INVENTORY REPORT'',
            ''Generated on: '' @ generated,
            [],
            ''CURRENT INVENTORY:'',
            chemicalCSV,
            [],
            ''USAGE HISTORY:'',
            usageCSV])"

text \<open>
  The lot row as the specification describes it, with the balance formatted to two decimals;
  the other cells as in \<open>chemicalRow\<close>.
\<close>

definition spec_chemicalRow :: "(rat \<Rightarrow> string) \<Rightarrow> Chemical \<Rightarrow> string list" where
  "spec_chemicalRow shortest lot =
     [name lot,
      toFixed2 (currentBalance lot),
      unit_string (unit lot),
      Number_toString shortest (quantity lot),
      supplier lot,
      dateReceived lot,
      expiryDate lot,
      storageLocation lot,
      or_empty (remarks lot)]"

subsection \<open>Flow calculation (\<^verbatim>\<open>components/GPMCalculator.tsx\<close>)\<close>

record FlowReading =
  reading_id :: string
  timestamp :: string
  duration :: rat
  gpm :: rat
  operatorName :: string
  deepwell9 :: rat
  deepwell10 :: rat
  reading_notes :: "string option"

text \<open>
  The effect on \<^verbatim>\<open>time\<close> (centiseconds, a counter from 0): the value given to \<^verbatim>\<open>setGPM\<close>.
  Every arithmetic result is rounded to binary64, as JavaScript computes it: \<^verbatim>\<open>time / 100\<close>,
  \<^verbatim>\<open>1 / seconds\<close>, the two products (the literal \<^verbatim>\<open>4.4\<close> is itself the binary64 value of
  \<open>44/10\<close>, and 3600 is a binary64 value) and \<^verbatim>\<open>Number(...)\<close> of the two-decimal string.
  The result is \<open>None\<close> if a division by zero were evaluated.
\<close>

definition calculateGPM_binary64 :: "nat \<Rightarrow> rat option" where
  "calculateGPM_binary64 time =
     (if time > 0 then
        case js_div (of_nat time) 100 of
          None \<Rightarrow> None
        | Some q \<Rightarrow>
            (let seconds = binary64 q
             in case js_div 1 seconds of
                  None \<Rightarrow> None
                | Some r \<Rightarrow>
                    (let calculatedGPM = binary64 (binary64 (binary64 r * 3600) * binary64 (44 / 10))
                     in Some (binary64 (toFixed2_value calculatedGPM))))
      else Some 0)"

text \<open>
  \<^verbatim>\<open>averageGPM\<close> of the report sent by \<^verbatim>\<open>sendToAdmin\<close>; \<^verbatim>\<open>reduce\<close> folds from the left,
  starting at 0.
\<close>

definition averageGPM :: "FlowReading list \<Rightarrow> rat option" where
  "averageGPM flowLog =
     (if length flowLog > 0
      then js_div (foldl (\<lambda>sum reading. sum + gpm reading) 0 flowLog) (of_nat (length flowLog))
      else Some 0)"

subsection \<open>The filtering contract, in the words of the specification\<close>



subsection \<open>Example data\<close>

definition example_lot :: ChemicalInput where
  "example_lot = \<lparr>dateReceived = ''2024-01-10'', name = ''Chlorine'', quantity = 50, unit = Liters,
     supplier = ''Acme'', expiryDate = ''2025-01-10'', storageLocation = ''Shelf A'', remarks = None\<rparr>"

definition example_usage :: UsageInput where
  "example_usage = \<lparr>chemicalId = ''1000'', chemicalName = ''Chlorine'', quantityUsed = 20,
     dateUsed = ''2024-02-01'', personInCharge = ''Ana'', usage_remarks = None\<rparr>"

definition unknown_usage :: UsageInput where
  "unknown_usage = \<lparr>chemicalId = ''9999'', chemicalName = [], quantityUsed = 20,
     dateUsed = ''2024-02-01'', personInCharge = ''Ana'', usage_remarks = None\<rparr>"

definition example_state :: ChemicalInventoryState where
  "example_state = run [Add 1000 example_lot, RecordUsage 1500 example_usage]"

definition negative_lot :: ChemicalInput where
  "negative_lot = \<lparr>dateReceived = ''2024-01-10'', name = ''Chlorine'', quantity = - 5, unit = Liters,
     supplier = ''Acme'', expiryDate = ''2025-01-10'', storageLocation = ''Shelf A'', remarks = None\<rparr>"


definition example_chemical :: Chemical where
  "example_chemical = ChemicalInput.extend example_lot (Chemical.fields ''1000'' 30)"

definition acid_chemical :: Chemical where
  "acid_chemical = \<lparr>dateReceived = ''2024-03-01'', name = ''Acetic acid'', quantity = 10, unit = Kilograms,
     supplier = ''Brenntag'', expiryDate = ''2024-12-31'', storageLocation = ''Cabinet 2'',
     remarks = Some ''corrosive'', chem_id = ''1200'', currentBalance = 1\<rparr>"

definition example_parse :: "string \<Rightarrow> int option" where
  "example_parse s = (if s = ''2025-01-10'' then Some 1736467200000 else None)"

definition boundary_chemical :: Chemical where
  "boundary_chemical = example_chemical\<lparr>currentBalance := 5\<rparr>"

definition example_readings :: "FlowReading list" where
  "example_readings =
     [\<lparr>reading_id = ''a'', timestamp = ''2024-05-01T08:00:00.000Z'', duration = 3600, gpm = 44 / 10,
        operatorName = ''Ana'', deepwell9 = 0, deepwell10 = 0, reading_notes = None\<rparr>,
      \<lparr>reading_id = ''b'', timestamp = ''2024-05-01T09:00:00.000Z'', duration = 1800, gpm = 88 / 10,
        operatorName = ''Ben'', deepwell9 = 1, deepwell10 = 2, reading_notes = Some ''ok''\<rparr>]"

section \<open>Properties\<close>

subsection \<open>Decimal numerals are injective\<close>

lemma digit_char_inj: "a < 10 \<Longrightarrow> b < 10 \<Longrightarrow> digit_char a = digit_char b \<Longrightarrow> a = b"
proof -
  assume a: "a < 10" and b: "b < 10" and e: "digit_char a = digit_char b"
  from e have "of_char (char_of (48 + a)) = (of_char (char_of (48 + b)) :: nat)"
    by (simp add: digit_char_def)
  then have "(48 + a) mod 256 = (48 + b) mod 256"
    by (simp only: of_char_of)
  with a b show "a = b" by simp
qed

lemma decimal_not_Nil: "decimal n \<noteq> []"
  by (subst decimal.simps) simp

lemma digit_char_not_minus: "d < 10 \<Longrightarrow> digit_char d \<noteq> CHR ''-''"
proof
  assume d: "d < 10" and e: "digit_char d = CHR ''-''"
  from e have "of_char (char_of (48 + d)) = (of_char (CHR ''-'') :: nat)"
    by (simp add: digit_char_def)
  then have "(48 + d) mod 256 = 45" by (simp only: of_char_of) simp
  with d show False by simp
qed

lemma decimal_no_minus: "CHR ''-'' \<notin> set (decimal n)"
proof (induction n rule: decimal.induct)
  case (1 n)
  show ?case
  proof (cases "n < 10")
    case True
    then show ?thesis using digit_char_not_minus [of n]
      by (subst decimal.simps) auto
  next
    case False
    then show ?thesis using 1 digit_char_not_minus [of "n mod 10"]
      by (subst decimal.simps) auto
  qed
qed

lemma decimal_inj: "decimal n = decimal m \<Longrightarrow> n = m"
proof (induction n arbitrary: m rule: decimal.induct)
  case (1 n)
  show ?case
  proof (cases "n < 10")
    case n: True
    show ?thesis
    proof (cases "m < 10")
      case True
      with n 1(2) show ?thesis
        by (simp add: decimal.simps [of n] decimal.simps [of m] digit_char_inj)
    next
      case False
      with n 1(2) decimal_not_Nil [of "m div 10"] show ?thesis
        by (simp add: decimal.simps [of n] decimal.simps [of m] Cons_eq_append_conv)
    qed
  next
    case n: False
    show ?thesis
    proof (cases "m < 10")
      case True
      with n 1(2) decimal_not_Nil [of "n div 10"] show ?thesis
        by (simp add: decimal.simps [of n] decimal.simps [of m] append_eq_Cons_conv)
    next
      case False
      with n 1(2) have e: "decimal (n div 10) = decimal (m div 10)"
        and d: "digit_char (n mod 10) = digit_char (m mod 10)"
        by (simp_all add: decimal.simps [of n] decimal.simps [of m])
      from 1(1) [OF n e] have q: "n div 10 = m div 10" .
      from d have r: "n mod 10 = m mod 10" by (simp add: digit_char_inj)
      from q r show ?thesis by (metis div_mult_mod_eq)
    qed
  qed
qed

lemma int_toString_inj: "int_toString a = int_toString b \<Longrightarrow> a = b"
proof -
  assume e: "int_toString a = int_toString b"
  have hd_neg: "\<And>i. i < 0 \<Longrightarrow> hd (int_toString i) = CHR ''-''"
    by (simp add: int_toString_def)
  have hd_pos: "\<And>i. \<not> i < 0 \<Longrightarrow> hd (int_toString i) \<noteq> CHR ''-''"
  proof -
    fix i :: int assume "\<not> i < 0"
    then have "int_toString i = decimal (nat i)" by (simp add: int_toString_def)
    moreover have "hd (decimal (nat i)) \<in> set (decimal (nat i))"
      by (simp add: decimal_not_Nil)
    ultimately show "hd (int_toString i) \<noteq> CHR ''-''"
      using decimal_no_minus [of "nat i"] by auto
  qed
  show "a = b"
  proof (cases "a < 0")
    case True
    then have "b < 0" using e hd_neg [of a] hd_pos [of b] by auto
    with True e have "decimal (nat (- a)) = decimal (nat (- b))" by (simp add: int_toString_def)
    then have "nat (- a) = nat (- b)" by (rule decimal_inj)
    with True \<open>b < 0\<close> show ?thesis by simp
  next
    case False
    then have "\<not> b < 0" using e hd_neg [of b] hd_pos [of a] by auto
    with False e have "decimal (nat a) = decimal (nat b)" by (simp add: int_toString_def)
    then have "nat a = nat b" by (rule decimal_inj)
    with False \<open>\<not> b < 0\<close> show ?thesis by simp
  qed
qed

lemma int_toString_1000: "int_toString 1000 = ''1000''"
  by code_simp

lemma int_toString_1500: "int_toString 1500 = ''1500''"
  by code_simp

lemma int_toString_2000: "int_toString 2000 = ''2000''"
  by code_simp

subsection \<open>Helper facts on the mutation engine\<close>

lemma useChemical_other: "chem_id c \<noteq> chemicalId u \<Longrightarrow> useChemical u c = c"
  by (simp add: useChemical_def)

lemma useChemical_truncate: "ChemicalInput.truncate (useChemical u c) = ChemicalInput.truncate c"
  by (simp add: useChemical_def ChemicalInput.truncate_def)

lemma useChemical_id: "chem_id (useChemical u c) = chem_id c"
  by (simp add: useChemical_def)

lemma chemicals_updateInventory:
  "chemicals (updateInventory now u s) = map (useChemical u) (chemicals s)"
  by (simp add: updateInventory_def Let_def)

lemma usageHistory_updateInventory:
  "usageHistory (updateInventory now u s) =
     usageHistory s @ [UsageInput.extend u (ChemicalUsage.fields (int_toString now))]"
  by (simp add: updateInventory_def Let_def)

lemma chemicals_addChemical:
  "chemicals (addChemical now c s) =
     chemicals s @ [ChemicalInput.extend c (Chemical.fields (int_toString now) (quantity c))]"
  by (simp add: addChemical_def Let_def)

lemma map_useChemical_no_match:
  "\<forall>c \<in> set cs. chem_id c \<noteq> chemicalId u \<Longrightarrow> map (useChemical u) cs = cs"
  by (induction cs) (simp_all add: useChemical_other)

lemma example_state_eq:
  "example_state =
     \<lparr>chemicals = [ChemicalInput.extend example_lot (Chemical.fields ''1000'' 30)],
      usageHistory = [UsageInput.extend example_usage (ChemicalUsage.fields ''1500'')],
      searchTerm = [], filterBy = ByName, isDarkMode = False\<rparr>"
  by (simp add: example_state_def run_def initialState_def addChemical_def updateInventory_def
      useChemical_def int_toString_1000 int_toString_1500 example_lot_def example_usage_def
      ChemicalInput.defs Chemical.defs UsageInput.defs ChemicalUsage.defs)

subsection \<open>C1: what \<open>recordUsage\<close> does\<close>

text \<open>
  C1, as the code has it. For every state, usage input and clock reading, \<^verbatim>\<open>updateInventory\<close>
  appends to the usage history one event that carries the input's fields and the identifier
  \<^verbatim>\<open>Date.now().toString()\<close>, the decimal numeral of the clock reading; every lot whose id is
  the usage's \<^verbatim>\<open>chemicalId\<close> gets the balance \<open>max 0 (currentBalance - quantityUsed)\<close> and every
  other lot stays as it is; if no lot's id equals the \<^verbatim>\<open>chemicalId\<close>, the event is appended all
  the same and the lot collection is unchanged. The identifier is new to the history when
  every earlier event carries the numeral of another clock reading; the code does nothing
  else to make it fresh.
\<close>

theorem updateInventory_effect:
  "usageHistory (updateInventory now u s)
     = usageHistory s @ [UsageInput.extend u (ChemicalUsage.fields (int_toString now))]
   \<and> length (chemicals (updateInventory now u s)) = length (chemicals s)
   \<and> (\<forall>i < length (chemicals s).
        chemicals (updateInventory now u s) ! i =
          (if chem_id (chemicals s ! i) = chemicalId u
           then (chemicals s ! i)\<lparr>currentBalance :=
                  max 0 (currentBalance (chemicals s ! i) - quantityUsed u)\<rparr>
           else chemicals s ! i))
   \<and> ((\<forall>c \<in> set (chemicals s). chem_id c \<noteq> chemicalId u)
        \<longrightarrow> chemicals (updateInventory now u s) = chemicals s)
   \<and> ((\<forall>e \<in> set (usageHistory s). \<exists>t. usage_id e = int_toString t \<and> t \<noteq> now)
        \<longrightarrow> int_toString now \<notin> usage_id ` set (usageHistory s))"
proof -
  have lots: "\<forall>i < length (chemicals s).
        chemicals (updateInventory now u s) ! i =
          (if chem_id (chemicals s ! i) = chemicalId u
           then (chemicals s ! i)\<lparr>currentBalance :=
                  max 0 (currentBalance (chemicals s ! i) - quantityUsed u)\<rparr>
           else chemicals s ! i)"
    by (simp add: chemicals_updateInventory useChemical_def)
  have none: "(\<forall>c \<in> set (chemicals s). chem_id c \<noteq> chemicalId u)
        \<longrightarrow> chemicals (updateInventory now u s) = chemicals s"
    by (simp add: chemicals_updateInventory map_useChemical_no_match)
  have fresh: "(\<forall>e \<in> set (usageHistory s). \<exists>t. usage_id e = int_toString t \<and> t \<noteq> now)
        \<longrightarrow> int_toString now \<notin> usage_id ` set (usageHistory s)"
  proof
    assume old: "\<forall>e \<in> set (usageHistory s). \<exists>t. usage_id e = int_toString t \<and> t \<noteq> now"
    show "int_toString now \<notin> usage_id ` set (usageHistory s)"
    proof
      assume "int_toString now \<in> usage_id ` set (usageHistory s)"
      then obtain e where e: "e \<in> set (usageHistory s)" and i: "usage_id e = int_toString now"
        by auto
      from old e obtain t where "usage_id e = int_toString t" and "t \<noteq> now" by blast
      with i show False using int_toString_inj [of t now] by simp
    qed
  qed
  show ?thesis
    using lots none fresh
    by (simp add: usageHistory_updateInventory chemicals_updateInventory)
qed

text \<open>
  At the example state (one lot \<open>''1000''\<close> with balance 30, one event recorded at 1500): a
  usage of 20 against the lot leaves 10; a usage against the unknown id \<open>''9999''\<close> at clock
  reading 2000 leaves the lots alone, is recorded second, and its id is new.
\<close>

theorem updateInventory_effect_witness:
  "chemicals (updateInventory 2000 example_usage example_state)
     = [ChemicalInput.extend example_lot (Chemical.fields ''1000'' 10)]
   \<and> chemicals (updateInventory 2000 unknown_usage example_state) = chemicals example_state
   \<and> usageHistory (updateInventory 2000 unknown_usage example_state)
     = [UsageInput.extend example_usage (ChemicalUsage.fields ''1500''),
        UsageInput.extend unknown_usage (ChemicalUsage.fields ''2000'')]
   \<and> ''2000'' \<notin> usage_id ` set (usageHistory example_state)"
proof -
  have len: "length (chemicals example_state) = 1"
    by (simp add: example_state_eq)
  have old: "\<forall>e \<in> set (usageHistory example_state). \<exists>t. usage_id e = int_toString t \<and> t \<noteq> 2000"
  proof -
    have "usage_id (UsageInput.extend example_usage (ChemicalUsage.fields ''1500'')) = int_toString 1500
            \<and> (1500::int) \<noteq> 2000"
      by (simp add: int_toString_1500 UsageInput.defs ChemicalUsage.defs)
    then show ?thesis unfolding example_state_eq by auto
  qed
  have nomatch: "\<forall>c \<in> set (chemicals example_state). chem_id c \<noteq> chemicalId unknown_usage"
    by (simp add: example_state_eq unknown_usage_def ChemicalInput.defs Chemical.defs)
  have a: "chemicals (updateInventory 2000 example_usage example_state) ! 0
     = ChemicalInput.extend example_lot (Chemical.fields ''1000'' 10)"
    using updateInventory_effect [of 2000 example_usage example_state] len
    by (simp add: example_state_eq example_usage_def example_lot_def ChemicalInput.defs Chemical.defs)
  have la: "length (chemicals (updateInventory 2000 example_usage example_state)) = 1"
    using updateInventory_effect [of 2000 example_usage example_state] len by simp
  have a': "chemicals (updateInventory 2000 example_usage example_state)
     = [ChemicalInput.extend example_lot (Chemical.fields ''1000'' 10)]"
    using a la by (cases "chemicals (updateInventory 2000 example_usage example_state)") simp_all
  show ?thesis
    using a' updateInventory_effect [of 2000 unknown_usage example_state] old nomatch
    by (simp add: int_toString_2000 example_state_eq)
qed

text \<open>
  The claim's "fresh identifier" fails when the clock reads the same twice: recording a
  usage at reading 1500 in the example state, whose one event was recorded at 1500, gives the
  new event (position 1) the id of the old one (position 0).
\<close>

theorem updateInventory_fresh_id_counterexample:
  "usage_id (usageHistory (updateInventory 1500 example_usage example_state) ! 1) = ''1500''
   \<and> usage_id (usageHistory (updateInventory 1500 example_usage example_state) ! 0) = ''1500''
   \<and> usage_id (usageHistory example_state ! 0) = ''1500''
   \<and> length (usageHistory example_state) = 1"
  by (simp add: example_state_eq updateInventory_def int_toString_1500 UsageInput.defs ChemicalUsage.defs)

subsection \<open>C9: the frame of \<open>recordUsage\<close>\<close>

text \<open>
  C9. \<open>recordUsage\<close> (\<^verbatim>\<open>updateInventory\<close>) has a strict frame. For every state and usage input:
  the lot collection keeps its length and, position by position, its ids (no lot is added or
  removed); every lot whose id differs from the usage's \<^verbatim>\<open>chemicalId\<close> is unchanged; every
  field of a matched lot other than \<^verbatim>\<open>currentBalance\<close> is unchanged; the previous usage events
  are the same, in the same order, with exactly one new event after them. The search term, the
  filter mode and the dark-mode flag are untouched as well.
\<close>

theorem updateInventory_frame:
  "length (chemicals (updateInventory now u s)) = length (chemicals s)
   \<and> map chem_id (chemicals (updateInventory now u s)) = map chem_id (chemicals s)
   \<and> map ChemicalInput.truncate (chemicals (updateInventory now u s))
       = map ChemicalInput.truncate (chemicals s)
   \<and> (\<forall>i < length (chemicals s).
        chem_id (chemicals s ! i) \<noteq> chemicalId u
          \<longrightarrow> chemicals (updateInventory now u s) ! i = chemicals s ! i)
   \<and> (\<exists>e. usageHistory (updateInventory now u s) = usageHistory s @ [e])
   \<and> take (length (usageHistory s)) (usageHistory (updateInventory now u s)) = usageHistory s
   \<and> length (usageHistory (updateInventory now u s)) = Suc (length (usageHistory s))
   \<and> searchTerm (updateInventory now u s) = searchTerm s
   \<and> filterBy (updateInventory now u s) = filterBy s
   \<and> isDarkMode (updateInventory now u s) = isDarkMode s"
proof -
  have ids: "map chem_id (chemicals (updateInventory now u s)) = map chem_id (chemicals s)"
    by (simp add: chemicals_updateInventory useChemical_id)
  have fields: "map ChemicalInput.truncate (chemicals (updateInventory now u s))
       = map ChemicalInput.truncate (chemicals s)"
    by (simp add: chemicals_updateInventory useChemical_truncate)
  have others: "\<forall>i < length (chemicals s).
        chem_id (chemicals s ! i) \<noteq> chemicalId u
          \<longrightarrow> chemicals (updateInventory now u s) ! i = chemicals s ! i"
    by (simp add: chemicals_updateInventory useChemical_other)
  have rest: "searchTerm (updateInventory now u s) = searchTerm s
   \<and> filterBy (updateInventory now u s) = filterBy s
   \<and> isDarkMode (updateInventory now u s) = isDarkMode s"
    by (simp add: updateInventory_def Let_def)
  have len: "length (chemicals (updateInventory now u s)) = length (chemicals s)"
    by (simp add: chemicals_updateInventory)
  have hist: "(\<exists>e. usageHistory (updateInventory now u s) = usageHistory s @ [e])
   \<and> take (length (usageHistory s)) (usageHistory (updateInventory now u s)) = usageHistory s
   \<and> length (usageHistory (updateInventory now u s)) = Suc (length (usageHistory s))"
    by (simp add: usageHistory_updateInventory)
  from len ids fields others hist rest show ?thesis by blast
qed

text \<open>
  In the example state the usage against \<open>''9999''\<close> matches no lot: lot 0 is untouched
  and the history grows from one event to two.
\<close>

theorem updateInventory_frame_witness:
  "0 < length (chemicals example_state)
   \<and> chem_id (chemicals example_state ! 0) \<noteq> chemicalId unknown_usage
   \<and> chemicals (updateInventory 2000 unknown_usage example_state) ! 0 = chemicals example_state ! 0
   \<and> length (usageHistory (updateInventory 2000 unknown_usage example_state)) = 2"
proof -
  have len: "0 < length (chemicals example_state)"
    by (simp add: example_state_eq)
  have other: "chem_id (chemicals example_state ! 0) \<noteq> chemicalId unknown_usage"
    by (simp add: example_state_eq unknown_usage_def ChemicalInput.defs Chemical.defs)
  have hist: "length (usageHistory example_state) = 1"
    by (simp add: example_state_eq)
  show ?thesis
    using updateInventory_frame [of 2000 unknown_usage example_state] len other hist
    by simp
qed

subsection \<open>Rounding to binary64 is monotone and idempotent\<close>

lemma two_powi_pos: "0 < (2::rat) powi k"
  by (simp add: power_int_def)

lemma two_powi_less_iff: "(2::rat) powi a < 2 powi b \<longleftrightarrow> a < b"
proof
  assume "(2::rat) powi a < 2 powi b"
  show "a < b"
  proof (rule ccontr)
    assume "\<not> a < b"
    then have "b \<le> a" by simp
    then have "(2::rat) powi b \<le> 2 powi a" by (intro power_int_increasing) simp_all
    with \<open>(2::rat) powi a < 2 powi b\<close> show False by simp
  qed
next
  assume "a < b"
  then show "(2::rat) powi a < 2 powi b" by (intro power_int_strict_increasing) simp_all
qed

lemma two_powi_le_iff: "(2::rat) powi a \<le> 2 powi b \<longleftrightarrow> a \<le> b"
  using two_powi_less_iff [of b a] by (auto simp: not_less [symmetric])

lemma two_powi_Suc: "(2::rat) powi (k + 1) = 2 * 2 powi k"
  by (simp add: power_int_add)

lemma floor_log2_bounds:
  assumes "0 < x"
  shows "2 powi (floor_log2 x) \<le> x \<and> x < 2 powi (floor_log2 x + 1)"
proof -
  obtain p q where pq: "quotient_of x = (p, q)" by (cases "quotient_of x")
  have q: "0 < q" using pq by (rule quotient_of_denom_pos)
  have x: "x = of_int p / of_int q" using pq by (rule quotient_of_div)
  have p: "0 < p" using assms q x by (simp add: zero_less_divide_iff)
  define k where "k = bitlen p - bitlen q"
  have bp: "1 \<le> bitlen p" and bq: "1 \<le> bitlen q"
    using p q by (auto simp: bitlen_alt_def)
  have p_lo: "(2::rat) powi (bitlen p - 1) \<le> of_int p"
  proof -
    have "(2::int) ^ nat (bitlen p - 1) \<le> p" using bitlen_bounds [OF p] by simp
    then have "(of_int ((2::int) ^ nat (bitlen p - 1)) :: rat) \<le> of_int p"
      by (simp only: of_int_le_iff)
    then show ?thesis using bp by (simp add: power_int_def)
  qed
  have p_hi: "of_int p < (2::rat) powi (bitlen p)"
  proof -
    have "p < (2::int) ^ nat (bitlen p)" using bitlen_bounds [OF p] by simp
    then have "(of_int p :: rat) < of_int ((2::int) ^ nat (bitlen p))"
      by (simp only: of_int_less_iff)
    then show ?thesis using bp by (simp add: power_int_def)
  qed
  have q_lo: "(2::rat) powi (bitlen q - 1) \<le> of_int q"
  proof -
    have "(2::int) ^ nat (bitlen q - 1) \<le> q" using bitlen_bounds [OF q] by simp
    then have "(of_int ((2::int) ^ nat (bitlen q - 1)) :: rat) \<le> of_int q"
      by (simp only: of_int_le_iff)
    then show ?thesis using bq by (simp add: power_int_def)
  qed
  have q_hi: "of_int q < (2::rat) powi (bitlen q)"
  proof -
    have "q < (2::int) ^ nat (bitlen q)" using bitlen_bounds [OF q] by simp
    then have "(of_int q :: rat) < of_int ((2::int) ^ nat (bitlen q))"
      by (simp only: of_int_less_iff)
    then show ?thesis using bq by (simp add: power_int_def)
  qed
  have qpos: "(0::rat) < of_int q" using q by simp
  have lower: "2 powi (k - 1) < x"
  proof -
    have "(2::rat) powi (k - 1) * of_int q < 2 powi (k - 1) * 2 powi (bitlen q)"
      using q_hi two_powi_pos [of "k - 1"] by (simp add: mult_strict_left_mono)
    also have "\<dots> = 2 powi (bitlen p - 1)"
      by (simp add: k_def power_int_add [symmetric])
    also have "\<dots> \<le> of_int p" by (rule p_lo)
    finally show ?thesis using qpos by (simp add: x pos_less_divide_eq)
  qed
  have upper: "x < 2 powi (k + 1)"
  proof -
    have "of_int p < (2::rat) powi (bitlen p)" by (rule p_hi)
    also have "\<dots> = 2 powi (k + 1) * 2 powi (bitlen q - 1)"
      by (simp add: k_def power_int_add [symmetric])
    also have "\<dots> \<le> 2 powi (k + 1) * of_int q"
      using q_lo two_powi_pos [of "k + 1"] by (simp add: mult_left_mono)
    finally show ?thesis using qpos by (simp add: x pos_divide_less_eq)
  qed
  have fl: "floor_log2 x = (if 2 powi k \<le> x then k else k - 1)"
    by (simp add: floor_log2_def pq k_def Let_def)
  show ?thesis
  proof (cases "2 powi k \<le> x")
    case True
    with fl upper show ?thesis by simp
  next
    case False
    with fl lower show ?thesis by simp
  qed
qed

lemma floor_log2_unique:
  assumes "2 powi e \<le> x" and "x < 2 powi (e + 1)"
  shows "floor_log2 x = e"
proof -
  have pos: "0 < x" using assms(1) two_powi_pos [of e] by (rule less_le_trans [rotated])
  note b = floor_log2_bounds [OF pos]
  from b assms have "(2::rat) powi (floor_log2 x) < 2 powi (e + 1)" by simp
  then have 1: "floor_log2 x < e + 1" by (simp only: two_powi_less_iff)
  from b assms have "(2::rat) powi e < 2 powi (floor_log2 x + 1)" by simp
  then have 2: "e < floor_log2 x + 1" by (simp only: two_powi_less_iff)
  from 1 2 show ?thesis by simp
qed

lemma floor_log2_mono:
  assumes "0 < x" and "x \<le> y"
  shows "floor_log2 x \<le> floor_log2 y"
proof -
  have y: "0 < y" using assms by simp
  from floor_log2_bounds [OF assms(1)] floor_log2_bounds [OF y] assms(2)
  have "(2::rat) powi (floor_log2 x) < 2 powi (floor_log2 y + 1)" by simp
  then have "floor_log2 x < floor_log2 y + 1" by (simp only: two_powi_less_iff)
  then show ?thesis by simp
qed

lemma round_half_even_cases:
  "round_half_even x = \<lfloor>x\<rfloor> \<or> round_half_even x = \<lfloor>x\<rfloor> + 1"
  by (simp add: round_half_even_def Let_def)

lemma round_half_even_of_int: "round_half_even (of_int n) = n"
  by (simp add: round_half_even_def Let_def)

lemma round_half_even_lower: "\<lfloor>x\<rfloor> \<le> round_half_even x"
  using round_half_even_cases [of x] by auto

lemma round_half_even_upper: "round_half_even x \<le> \<lfloor>x\<rfloor> + 1"
  using round_half_even_cases [of x] by auto

lemma round_half_even_le_int: "x \<le> of_int n \<Longrightarrow> round_half_even x \<le> n"
proof -
  assume le: "x \<le> of_int n"
  show ?thesis
  proof (cases "x = of_int n")
    case True
    then show ?thesis by (simp add: round_half_even_of_int)
  next
    case False
    with le have "x < of_int n" by simp
    then have "\<lfloor>x\<rfloor> < n" by (simp add: floor_less_iff)
    with round_half_even_upper [of x] show ?thesis by simp
  qed
qed

lemma round_half_even_ge_int: "of_int n \<le> x \<Longrightarrow> n \<le> round_half_even x"
proof -
  assume "of_int n \<le> x"
  then have "n \<le> \<lfloor>x\<rfloor>" by (simp add: le_floor_iff)
  with round_half_even_lower [of x] show ?thesis by simp
qed

lemma round_half_even_mono: "x \<le> y \<Longrightarrow> round_half_even x \<le> round_half_even y"
proof -
  assume le: "x \<le> y"
  then have f: "\<lfloor>x\<rfloor> \<le> \<lfloor>y\<rfloor>" by (rule floor_mono)
  show ?thesis
  proof (cases "\<lfloor>x\<rfloor> = \<lfloor>y\<rfloor>")
    case True
    with le have "x - of_int \<lfloor>x\<rfloor> \<le> y - of_int \<lfloor>y\<rfloor>" by simp
    with True show ?thesis
      by (auto simp: round_half_even_def Let_def)
  next
    case False
    with f have "\<lfloor>x\<rfloor> + 1 \<le> \<lfloor>y\<rfloor>" by simp
    with round_half_even_upper [of x] round_half_even_lower [of y] show ?thesis by simp
  qed
qed

lemma round_half_even_minus: "round_half_even (- x) = - round_half_even x"
proof (cases "of_int \<lfloor>x\<rfloor> = x")
  case True
  define n where "n = \<lfloor>x\<rfloor>"
  from True have x: "x = of_int n" unfolding n_def by (rule sym)
  have "round_half_even (of_int (- n)) = - n" by (rule round_half_even_of_int)
  then show ?thesis by (simp add: x round_half_even_of_int)
next
  case False
  define n where "n = \<lfloor>x\<rfloor>"
  have lo: "of_int n < x" using False by (simp add: n_def less_le)
  have hi: "x < of_int n + 1" unfolding n_def by linarith
  have fm: "\<lfloor>- x\<rfloor> = - n - 1"
    using lo hi by (intro floor_unique) simp_all
  have fx: "\<lfloor>x\<rfloor> = n" by (simp add: n_def)
  show ?thesis
    using lo hi by (auto simp: round_half_even_def Let_def fm fx)
qed

lemma binary64_0: "binary64 0 = 0"
  by (simp add: binary64_def)

lemma binary64_unfold:
  "x \<noteq> 0 \<Longrightarrow> binary64 x =
     of_int (round_half_even (x / 2 powi (max (floor_log2 \<bar>x\<bar>) (- 1022) - 52)))
       * 2 powi (max (floor_log2 \<bar>x\<bar>) (- 1022) - 52)"
  by (simp add: binary64_def Let_def)

lemma binary64_minus: "binary64 (- x) = - binary64 x"
proof (cases "x = 0")
  case True
  then show ?thesis by (simp add: binary64_0)
next
  case False
  then show ?thesis
    by (simp add: binary64_unfold round_half_even_minus)
qed

lemma two_powi_shift53: "(2::rat) ^ 53 * 2 powi (e - 52) = 2 powi (e + 1)"
proof -
  have "(2::rat) powi (53 + (e - 52)) = 2 powi 53 * 2 powi (e - 52)"
    by (rule power_int_add) simp
  moreover have "53 + (e - 52) = e + 1" by simp
  ultimately show ?thesis by (simp add: add.commute)
qed

lemma two_powi_shift52: "(2::rat) ^ 52 * 2 powi (e - 52) = 2 powi e"
proof -
  have "(2::rat) powi (52 + (e - 52)) = 2 powi 52 * 2 powi (e - 52)"
    by (rule power_int_add) simp
  then show ?thesis by simp
qed

lemma scale_le: "(a::int) \<le> b \<Longrightarrow> (of_int a :: rat) * 2 powi k \<le> of_int b * 2 powi k"
  using two_powi_pos [of k] by (simp add: mult_right_mono)

text \<open>For positive \<open>x\<close>, with \<open>e\<close> the clamped exponent and \<open>u = 2^(e - 52)\<close> the spacing.\<close>

lemma scaled_upper:
  assumes "0 < x" and "e = max (floor_log2 x) (- 1022)"
  shows "x / 2 powi (e - 52) < 2 ^ 53"
proof -
  have "x < 2 powi (floor_log2 x + 1)" using floor_log2_bounds [OF assms(1)] by simp
  also have "\<dots> \<le> 2 powi (e + 1)"
    unfolding two_powi_le_iff using assms(2) by simp
  also have "\<dots> = 2 ^ 53 * 2 powi (e - 52)"
    by (rule two_powi_shift53 [symmetric])
  finally show ?thesis using two_powi_pos [of "e - 52"] by (simp add: pos_divide_less_eq)
qed

lemma scaled_lower:
  assumes "0 < x" and "e = floor_log2 x"
  shows "2 ^ 52 \<le> x / 2 powi (e - 52)"
proof -
  have "(2::rat) ^ 52 * 2 powi (e - 52) = 2 powi e" by (rule two_powi_shift52)
  also have "\<dots> \<le> x" using floor_log2_bounds [OF assms(1)] assms(2) by simp
  finally show ?thesis using two_powi_pos [of "e - 52"] by (simp add: pos_le_divide_eq)
qed

lemma binary64_pos_upper:
  assumes "0 < x" and "e = max (floor_log2 x) (- 1022)"
  shows "binary64 x \<le> 2 powi (e + 1)"
proof -
  have "x / 2 powi (e - 52) \<le> of_int (2 ^ 53)"
    using scaled_upper [OF assms] by simp
  then have "round_half_even (x / 2 powi (e - 52)) \<le> 2 ^ 53"
    by (rule round_half_even_le_int)
  then have "of_int (round_half_even (x / 2 powi (e - 52))) * 2 powi (e - 52)
               \<le> (of_int (2 ^ 53) :: rat) * 2 powi (e - 52)"
    by (rule scale_le)
  also have "\<dots> = 2 powi (e + 1)"
    using two_powi_shift53 [of e] by simp
  finally show ?thesis
    using assms by (simp add: binary64_unfold abs_of_pos)
qed

lemma binary64_pos_lower:
  assumes "0 < x" and "- 1022 \<le> floor_log2 x"
  shows "2 powi (floor_log2 x) \<le> binary64 x"
proof -
  define e where "e = floor_log2 x"
  have m: "max (floor_log2 x) (- 1022) = e" using assms(2) by (simp add: e_def)
  have "of_int (2 ^ 52) \<le> x / 2 powi (e - 52)"
    using scaled_lower [OF assms(1), of e] by (simp add: e_def)
  then have r: "2 ^ 52 \<le> round_half_even (x / 2 powi (e - 52))"
    by (rule round_half_even_ge_int)
  have "(2::rat) powi e = of_int (2 ^ 52) * 2 powi (e - 52)"
    using two_powi_shift52 [of e] by simp
  also have "\<dots> \<le> of_int (round_half_even (x / 2 powi (e - 52))) * 2 powi (e - 52)"
    using r by (rule scale_le)
  finally have "(2::rat) powi e \<le> of_int (round_half_even (x / 2 powi (e - 52))) * 2 powi (e - 52)" .
  then show ?thesis
    using assms(1) m by (simp add: binary64_unfold abs_of_pos e_def)
qed

lemma binary64_pos_nonneg:
  assumes "0 < x"
  shows "0 \<le> binary64 x"
proof -
  define e where "e = max (floor_log2 x) (- 1022)"
  have "of_int 0 \<le> x / 2 powi (e - 52)"
    using assms two_powi_pos [of "e - 52"] by simp
  then have "0 \<le> round_half_even (x / 2 powi (e - 52))"
    by (rule round_half_even_ge_int)
  then show ?thesis
    using assms two_powi_pos [of "e - 52"] by (simp add: binary64_unfold abs_of_pos e_def)
qed

lemma binary64_pos_mono:
  assumes "0 < x" and "x \<le> y"
  shows "binary64 x \<le> binary64 y"
proof -
  have y: "0 < y" using assms by simp
  define ex where "ex = max (floor_log2 x) (- 1022)"
  define ey where "ey = max (floor_log2 y) (- 1022)"
  have le: "ex \<le> ey"
    using floor_log2_mono [OF assms] by (simp add: ex_def ey_def)
  show ?thesis
  proof (cases "ex = ey")
    case True
    have "x / 2 powi (ey - 52) \<le> y / 2 powi (ey - 52)"
      using assms(2) two_powi_pos [of "ey - 52"] by (simp add: divide_right_mono)
    then have "round_half_even (x / 2 powi (ey - 52)) \<le> round_half_even (y / 2 powi (ey - 52))"
      by (rule round_half_even_mono)
    then have "(of_int (round_half_even (x / 2 powi (ey - 52))) :: rat) * 2 powi (ey - 52)
                 \<le> of_int (round_half_even (y / 2 powi (ey - 52))) * 2 powi (ey - 52)"
      by (rule scale_le)
    then show ?thesis
      using assms(1) y True by (simp add: binary64_unfold abs_of_pos ex_def ey_def)
  next
    case False
    with le have lt: "ex < ey" by simp
    then have normal: "- 1022 \<le> floor_log2 y" and ey: "ey = floor_log2 y"
      by (auto simp: ex_def ey_def)
    have "binary64 x \<le> 2 powi (ex + 1)"
      using binary64_pos_upper [OF assms(1)] by (simp add: ex_def)
    also have "\<dots> \<le> 2 powi ey"
      unfolding two_powi_le_iff using lt by simp
    also have "\<dots> \<le> binary64 y"
      using binary64_pos_lower [OF y normal] by (simp add: ey)
    finally show ?thesis .
  qed
qed

lemma binary64_nonneg: "0 \<le> x \<Longrightarrow> 0 \<le> binary64 x"
  by (cases "x = 0") (simp_all add: binary64_0 binary64_pos_nonneg)

lemma binary64_nonpos: "x \<le> 0 \<Longrightarrow> binary64 x \<le> 0"
  using binary64_nonneg [of "- x"] by (simp add: binary64_minus)

lemma binary64_mono:
  assumes "x \<le> y"
  shows "binary64 x \<le> binary64 y"
proof (cases "0 < x")
  case True
  then show ?thesis using assms by (rule binary64_pos_mono)
next
  case x: False
  show ?thesis
  proof (cases "0 \<le> y")
    case True
    with x binary64_nonpos [of x] binary64_nonneg [of y] show ?thesis by simp
  next
    case False
    then have "0 < - y" and "- y \<le> - x" using assms by simp_all
    then have "binary64 (- y) \<le> binary64 (- x)" by (rule binary64_pos_mono)
    then show ?thesis by (simp add: binary64_minus)
  qed
qed

lemma binary64_pos_idem:
  assumes "0 < x"
  shows "binary64 (binary64 x) = binary64 x"
proof -
  define e where "e = max (floor_log2 x) (- 1022)"
  define u :: rat where "u = 2 powi (e - 52)"
  define m where "m = round_half_even (x / u)"
  have u: "0 < u" by (simp add: u_def two_powi_pos)
  have v: "binary64 x = of_int m * u"
    using assms by (simp add: binary64_unfold abs_of_pos e_def u_def m_def)
  have e_lo: "- 1022 \<le> e" by (simp add: e_def)
  have m_hi: "m \<le> 2 ^ 53"
  proof -
    have "x / u \<le> of_int (2 ^ 53)"
      using scaled_upper [OF assms, of e] by (simp add: e_def u_def)
    then show ?thesis unfolding m_def by (rule round_half_even_le_int)
  qed
  have m_lo: "0 \<le> m"
  proof -
    have "of_int 0 \<le> x / u" using assms u by simp
    then show ?thesis unfolding m_def by (rule round_half_even_ge_int)
  qed
  show ?thesis
  proof (cases "m = 0")
    case True
    then show ?thesis by (simp add: v binary64_0)
  next
    case False
    with m_lo have m_pos: "0 < m" by simp
    then have v_pos: "0 < of_int m * u" using u by simp
    show ?thesis
    proof (cases "m = 2 ^ 53")
      case True
      have val: "of_int m * u = 2 powi (e + 1)"
        using two_powi_shift53 [of e] by (simp add: True u_def)
      have "floor_log2 (2 powi (e + 1)) = e + 1"
        by (rule floor_log2_unique) (simp_all add: two_powi_less_iff)
      then have ex: "max (floor_log2 (2 powi (e + 1))) (- 1022) = e + 1"
        using e_lo by simp
      have "(2::rat) powi (e + 1) / 2 powi (e + 1 - 52) = of_int (2 ^ 52)"
        using two_powi_shift52 [of "e + 1"] two_powi_pos [of "e + 1 - 52"]
        by (simp add: field_simps)
      then have "round_half_even ((2::rat) powi (e + 1) / 2 powi (e + 1 - 52)) = 2 ^ 52"
        by (simp only: round_half_even_of_int)
      then have "binary64 (2 powi (e + 1)) = of_int (2 ^ 52) * 2 powi (e + 1 - 52)"
        using two_powi_pos [of "e + 1"] by (simp add: binary64_unfold ex)
      also have "\<dots> = 2 powi (e + 1)"
        using two_powi_shift52 [of "e + 1"] by simp
      finally show ?thesis by (simp add: v val)
    next
      case False
      with m_hi have m_lt: "m < 2 ^ 53" by simp
      have upper: "of_int m * u < 2 powi (e + 1)"
      proof -
        have "(of_int m :: rat) < of_int (2 ^ 53)" using m_lt by (simp only: of_int_less_iff)
        then have "of_int m * u < of_int (2 ^ 53) * u" using u by (simp add: mult_strict_right_mono)
        also have "\<dots> = 2 powi (e + 1)" using two_powi_shift53 [of e] by (simp add: u_def)
        finally show ?thesis .
      qed
      have fl_le: "floor_log2 (of_int m * u) \<le> e"
      proof -
        from floor_log2_bounds [OF v_pos] upper
        have "(2::rat) powi (floor_log2 (of_int m * u)) < 2 powi (e + 1)" by simp
        then have "floor_log2 (of_int m * u) < e + 1" by (simp only: two_powi_less_iff)
        then show ?thesis by simp
      qed
      have ex: "max (floor_log2 (of_int m * u)) (- 1022) = e"
      proof (cases "- 1022 \<le> floor_log2 x")
        case True
        then have e: "e = floor_log2 x" by (simp add: e_def)
        have "of_int (2 ^ 52) \<le> x / u"
          using scaled_lower [OF assms e] by (simp add: u_def)
        then have m52: "2 ^ 52 \<le> m" unfolding m_def by (rule round_half_even_ge_int)
        have "(2::rat) powi e = of_int (2 ^ 52) * 2 powi (e - 52)"
          using two_powi_shift52 [of e] by simp
        also have "\<dots> \<le> of_int m * 2 powi (e - 52)"
          using m52 by (rule scale_le)
        finally have "(2::rat) powi e \<le> of_int m * u" by (simp only: u_def)
        with floor_log2_bounds [OF v_pos]
        have "(2::rat) powi e < 2 powi (floor_log2 (of_int m * u) + 1)" by simp
        then have "e < floor_log2 (of_int m * u) + 1" by (simp only: two_powi_less_iff)
        with fl_le e_lo show ?thesis by simp
      next
        case False
        then have "e = - 1022" by (simp add: e_def)
        with fl_le show ?thesis by simp
      qed
      have nz: "of_int m * u \<noteq> 0" using v_pos by (rule less_imp_neq [THEN not_sym])
      have ab: "\<bar>of_int m * u\<bar> = of_int m * u" using v_pos by (rule abs_of_pos)
      have "of_int m * u / u = (of_int m :: rat)" using u by simp
      then have r: "round_half_even (of_int m * u / u) = m"
        by (simp only: round_half_even_of_int)
      have "binary64 (of_int m * u) =
              of_int (round_half_even (of_int m * u / 2 powi (e - 52))) * 2 powi (e - 52)"
        using binary64_unfold [OF nz] by (simp only: ab ex)
      then have "binary64 (of_int m * u) = of_int (round_half_even (of_int m * u / u)) * u"
        by (simp only: u_def [symmetric])
      then have "binary64 (of_int m * u) = of_int m * u"
        by (simp only: r)
      then show ?thesis by (simp only: v)
    qed
  qed
qed

lemma binary64_idem: "binary64 (binary64 x) = binary64 x"
proof (cases "0 < x")
  case True
  then show ?thesis by (rule binary64_pos_idem)
next
  case False
  show ?thesis
  proof (cases "x = 0")
    case True
    then show ?thesis by (simp add: binary64_0)
  next
    case False
    with \<open>\<not> 0 < x\<close> have "0 < - x" by simp
    then have "binary64 (binary64 (- x)) = binary64 (- x)" by (rule binary64_pos_idem)
    then show ?thesis by (simp add: binary64_minus)
  qed
qed

lemma binary64_max_0: "binary64 (max 0 (binary64 x)) = max 0 (binary64 x)"
  by (simp add: max_def binary64_0 binary64_idem)

lemma binary64_subtract:
  assumes "binary64 cb = cb" and "0 < q"
  shows "0 \<le> max 0 (binary64 (cb - q))
       \<and> max 0 (binary64 (cb - q)) \<le> max 0 cb
       \<and> binary64 (max 0 (binary64 (cb - q))) = max 0 (binary64 (cb - q))"
proof -
  have "binary64 (cb - q) \<le> binary64 cb"
    using assms(2) by (intro binary64_mono) simp
  with assms(1) have "binary64 (cb - q) \<le> cb" by simp
  then show ?thesis by (simp add: binary64_max_0)
qed

lemma binary64_posint:
  assumes "0 < n" and "n < 2 ^ 53"
  shows "binary64 (of_int n) = of_int n"
proof -
  define x :: rat where "x = of_int n"
  have x: "0 < x" using assms(1) by (simp add: x_def)
  define e where "e = floor_log2 x"
  have "(2::rat) powi 0 \<le> x" using assms(1) by (simp add: x_def)
  with floor_log2_bounds [OF x] have "(2::rat) powi 0 < 2 powi (e + 1)" by (simp add: e_def)
  then have "0 < e + 1" by (simp only: two_powi_less_iff)
  then have e0: "0 \<le> e" by simp
  have "x < 2 powi 53"
  proof -
    have "(of_int n :: rat) < of_int (2 ^ 53)" using assms(2) by (simp only: of_int_less_iff)
    then show ?thesis by (simp add: x_def)
  qed
  with floor_log2_bounds [OF x] have "(2::rat) powi e < 2 powi 53" by (simp add: e_def)
  then have "e < 53" by (simp only: two_powi_less_iff)
  then have e52: "e \<le> 52" by simp
  have m: "max (floor_log2 x) (- 1022) = e" using e0 by (simp add: e_def)
  have u: "(2::rat) powi (e - 52) = 1 / 2 ^ nat (52 - e)"
  proof -
    have "(2::rat) powi (e - 52) = 2 powi (- (52 - e))" by simp
    also have "\<dots> = 1 / 2 powi (52 - e)" by (rule power_int_minus_divide)
    also have "\<dots> = 1 / 2 ^ nat (52 - e)" using e52 by (simp add: power_int_def)
    finally show ?thesis .
  qed
  have "x / 2 powi (e - 52) = of_int (n * 2 ^ nat (52 - e))"
    by (simp add: u x_def)
  then have "round_half_even (x / 2 powi (e - 52)) = n * 2 ^ nat (52 - e)"
    by (simp only: round_half_even_of_int)
  then have "binary64 x = of_int (n * 2 ^ nat (52 - e)) * 2 powi (e - 52)"
    using x m by (simp add: binary64_def Let_def abs_of_pos)
  also have "\<dots> = x" by (simp add: u x_def)
  finally show ?thesis by (simp add: x_def)
qed

lemma binary64_50: "binary64 50 = 50"
  using binary64_posint [of 50] by simp

lemma binary64_30: "binary64 30 = 30"
  using binary64_posint [of 30] by simp

text \<open>Evaluating \<open>binary64\<close> at a given number: the exponent, then the side the quotient rounds to.\<close>

lemma binary64_down:
  assumes "x \<noteq> 0" and "max (floor_log2 \<bar>x\<bar>) (- 1022) = e" and "ulp = 2 powi (e - 52)"
    and "of_int n \<le> x / ulp" and "x / ulp < of_int n + 1 / 2"
  shows "binary64 x = of_int n * ulp"
proof -
  have f: "\<lfloor>x / ulp\<rfloor> = n"
    using assms(4,5) by (intro floor_unique) simp_all
  have "x / ulp - of_int n < 1 / 2"
    using assms(5) by linarith
  then have "round_half_even (x / ulp) = n"
    by (simp add: round_half_even_def Let_def f)
  with assms(1,2,3) show ?thesis
    by (simp add: binary64_def Let_def)
qed

lemma binary64_up:
  assumes "x \<noteq> 0" and "max (floor_log2 \<bar>x\<bar>) (- 1022) = e" and "ulp = 2 powi (e - 52)"
    and "of_int n + 1 / 2 < x / ulp" and "x / ulp < of_int n + 1"
  shows "binary64 x = (of_int n + 1) * ulp"
proof -
  have f: "\<lfloor>x / ulp\<rfloor> = n"
    using assms(4,5) by (intro floor_unique) simp_all
  have "1 / 2 < x / ulp - of_int n"
    using assms(4) by linarith
  then have "round_half_even (x / ulp) = n + 1"
    by (simp add: round_half_even_def Let_def f)
  with assms(1,2,3) show ?thesis
    by (simp add: binary64_def Let_def)
qed

lemma binary64_tenth: "binary64 (1 / 10) = 3602879701896397 / 36028797018963968"
proof -
  have e: "max (floor_log2 \<bar>1 / 10\<bar>) (- 1022) = - 4" by code_simp
  have "binary64 (1 / 10) = (of_int 7205759403792793 + 1) * (1 / 72057594037927936)"
    by (rule binary64_up [OF _ e]) simp_all
  then show ?thesis by simp
qed

text \<open>Rounding a number in the normal range changes it by at most its \<open>2^-53\<close>th part.\<close>

lemma round_half_even_close: "\<bar>of_int (round_half_even y) - y\<bar> \<le> (1 / 2 :: rat)"
proof -
  define n where "n = \<lfloor>y\<rfloor>"
  define r where "r = y - of_int n"
  have r: "0 \<le> r" "r < 1" unfolding r_def n_def by linarith+
  have c: "round_half_even y = n \<and> r \<le> 1 / 2 \<or> round_half_even y = n + 1 \<and> 1 / 2 \<le> r"
    unfolding round_half_even_def Let_def n_def [symmetric] r_def [symmetric] by auto
  then show ?thesis
  proof
    assume a: "round_half_even y = n \<and> r \<le> 1 / 2"
    then have e: "round_half_even y = n" and h: "r \<le> 1 / 2" by blast+
    have "of_int (round_half_even y) - y = - r" by (simp add: e r_def)
    with r h show ?thesis by linarith
  next
    assume a: "round_half_even y = n + 1 \<and> 1 / 2 \<le> r"
    then have e: "round_half_even y = n + 1" and h: "1 / 2 \<le> r" by blast+
    have "of_int (round_half_even y) - y = 1 - r" by (simp add: e r_def)
    with r h show ?thesis by linarith
  qed
qed

lemma two_powi_m60: "(2 :: rat) powi (- 60) = 1 / 2 ^ 60"
proof -
  have "(2 :: rat) powi (- 60) = 1 / 2 powi 60" by (rule power_int_minus_divide)
  also have "(2 :: rat) powi 60 = 2 ^ 60" by (rule power_int_numeral)
  finally show ?thesis .
qed

lemma two_powi_m1022: "(2 :: rat) powi (- 1022) \<le> 1 / 2 ^ 60"
proof -
  have "(- 1022 :: int) \<le> - 60" by simp
  then have "(2 :: rat) powi (- 1022) \<le> 2 powi (- 60)" by (simp only: two_powi_le_iff)
  then show ?thesis by (simp only: two_powi_m60)
qed

lemma binary64_error:
  assumes "2 powi (- 1022) \<le> x"
  shows "\<bar>binary64 x - x\<bar> \<le> x / 2 ^ 53"
proof -
  have x: "0 < x" using assms two_powi_pos [of "- 1022"] by (rule less_le_trans [rotated])
  define e where "e = floor_log2 x"
  define u :: rat where "u = 2 powi (e - 52)"
  define m where "m = round_half_even (x / u)"
  have u: "0 < u" unfolding u_def by (rule two_powi_pos)
  have b: "2 powi e \<le> x" "x < 2 powi (e + 1)"
    using floor_log2_bounds [OF x] by (simp_all add: e_def)
  from assms b(2) have "(2 :: rat) powi (- 1022) < 2 powi (e + 1)" by (rule le_less_trans)
  then have "- 1022 < e + 1" by (simp only: two_powi_less_iff)
  then have mx: "max (floor_log2 x) (- 1022) = e" by (simp add: e_def)
  have nz: "x \<noteq> 0" using x by simp
  have ab: "\<bar>x\<bar> = x" using x by simp
  have v: "binary64 x = of_int m * u"
    unfolding binary64_unfold [OF nz] ab mx m_def u_def ..
  have "\<bar>of_int m - x / u\<bar> \<le> 1 / 2" unfolding m_def by (rule round_half_even_close)
  then have "\<bar>of_int m - x / u\<bar> * u \<le> 1 / 2 * u" using u by (simp add: mult_right_mono)
  moreover have "\<bar>of_int m - x / u\<bar> * u = \<bar>of_int m * u - x\<bar>"
  proof -
    have "\<bar>of_int m - x / u\<bar> * u = \<bar>(of_int m - x / u) * u\<bar>" using u by (simp add: abs_mult)
    also have "(of_int m - x / u) * u = of_int m * u - x" using u by (simp add: field_simps)
    finally show ?thesis .
  qed
  ultimately have d: "\<bar>of_int m * u - x\<bar> \<le> u / 2" by simp
  have "(2 :: rat) ^ 52 * u = 2 powi e" unfolding u_def by (rule two_powi_shift52)
  also have "\<dots> \<le> x" by (rule b(1))
  finally have "u \<le> x / 2 ^ 52" by (simp add: field_simps)
  then have "u / 2 \<le> x / 2 ^ 53" by simp
  with d show ?thesis unfolding v by (rule order_trans)
qed

lemma binary64_normal_error:
  assumes "1 / 2 ^ 60 \<le> x"
  shows "\<bar>binary64 x - x\<bar> \<le> x / 2 ^ 53"
  using two_powi_m1022 assms by (intro binary64_error) (rule order_trans)

lemma binary64_hundredth: "binary64 (1 / 100) = 5764607523034235 / 576460752303423488"
proof -
  have e: "max (floor_log2 \<bar>1 / 100\<bar>) (- 1022) = - 7" by code_simp
  have "binary64 (1 / 100) = (of_int 5764607523034234 + 1) * (1 / 576460752303423488)"
    by (rule binary64_up [OF _ e]) simp_all
  then show ?thesis by simp
qed

subsection \<open>C2: balances stay between zero and the received quantity\<close>

lemma useChemical_in_range:
  "0 < quantityUsed u \<Longrightarrow> balance_in_range c \<Longrightarrow> balance_in_range (useChemical u c)"
  by (simp add: useChemical_def balance_in_range_def)

lemma useChemical_decreases:
  "0 < quantityUsed u \<Longrightarrow> 0 \<le> currentBalance c \<Longrightarrow> currentBalance (useChemical u c) \<le> currentBalance c"
  by (simp add: useChemical_def)

lemma new_lot_in_range:
  "0 \<le> quantity c \<Longrightarrow> balance_in_range (ChemicalInput.extend c (Chemical.fields i (quantity c)))"
  by (simp add: balance_in_range_def ChemicalInput.defs Chemical.defs)

lemma apply_op_in_range:
  assumes "valid_quantities op" and "\<forall>c \<in> set (chemicals s). balance_in_range c"
  shows "\<forall>c \<in> set (chemicals (apply_op s op)). balance_in_range c"
proof (cases op)
  case (Add now c)
  with assms show ?thesis
    by (auto simp: chemicals_addChemical new_lot_in_range)
next
  case (RecordUsage now u)
  with assms show ?thesis
    by (auto simp: chemicals_updateInventory useChemical_in_range)
qed

lemma foldl_apply_op_in_range:
  "\<forall>op \<in> set ops. valid_quantities op \<Longrightarrow> \<forall>c \<in> set (chemicals s). balance_in_range c
     \<Longrightarrow> \<forall>c \<in> set (chemicals (foldl apply_op s ops)). balance_in_range c"
proof (induction ops arbitrary: s)
  case Nil
  then show ?case by simp
next
  case (Cons op ops)
  from Cons.prems have "\<forall>c \<in> set (chemicals (apply_op s op)). balance_in_range c"
    by (intro apply_op_in_range) simp_all
  with Cons.prems Cons.IH [of "apply_op s op"] show ?case by simp
qed

lemma run_in_range:
  "\<forall>op \<in> set ops. valid_quantities op \<Longrightarrow> \<forall>c \<in> set (chemicals (run ops)). balance_in_range c"
  unfolding run_def by (rule foldl_apply_op_in_range) (simp_all add: initialState_def)

lemma run_snoc: "run (ops @ [op]) = apply_op (run ops) op"
  by (simp add: run_def)

lemma chemicals_updateInventory_binary64:
  "chemicals (updateInventory_binary64 now u s) = map (useChemical_binary64 u) (chemicals s)"
  by (simp add: updateInventory_binary64_def Let_def)

lemma useChemical_binary64_number:
  assumes "0 < quantityUsed u" and "balance_is_number c"
  shows "balance_is_number (useChemical_binary64 u c)
       \<and> currentBalance (useChemical_binary64 u c) \<le> currentBalance c"
proof (cases "chem_id c = chemicalId u")
  case True
  from assms(2) have n: "binary64 (currentBalance c) = currentBalance c"
    and r: "0 \<le> currentBalance c" "currentBalance c \<le> quantity c"
    by (simp_all add: balance_is_number_def)
  from binary64_subtract [OF n assms(1)] r True show ?thesis
    by (simp add: useChemical_binary64_def balance_is_number_def)
next
  case False
  with assms(2) show ?thesis by (simp add: useChemical_binary64_def)
qed

lemma apply_op_binary64_number:
  assumes "valid_numbers op" and "\<forall>c \<in> set (chemicals s). balance_is_number c"
  shows "\<forall>c \<in> set (chemicals (apply_op_binary64 s op)). balance_is_number c"
proof (cases op)
  case (Add now c)
  with assms show ?thesis
    by (auto simp: chemicals_addChemical balance_is_number_def ChemicalInput.defs Chemical.defs)
next
  case (RecordUsage now u)
  with assms show ?thesis
    by (auto simp: chemicals_updateInventory_binary64 useChemical_binary64_number)
qed

lemma foldl_apply_op_binary64_number:
  "\<forall>op \<in> set ops. valid_numbers op \<Longrightarrow> \<forall>c \<in> set (chemicals s). balance_is_number c
     \<Longrightarrow> \<forall>c \<in> set (chemicals (foldl apply_op_binary64 s ops)). balance_is_number c"
proof (induction ops arbitrary: s)
  case Nil
  then show ?case by simp
next
  case (Cons op ops)
  from Cons.prems have "\<forall>c \<in> set (chemicals (apply_op_binary64 s op)). balance_is_number c"
    by (intro apply_op_binary64_number) simp_all
  with Cons.prems Cons.IH [of "apply_op_binary64 s op"] show ?case by simp
qed

lemma run_binary64_number:
  "\<forall>op \<in> set ops. valid_numbers op \<Longrightarrow> \<forall>c \<in> set (chemicals (run_binary64 ops)). balance_is_number c"
  unfolding run_binary64_def by (rule foldl_apply_op_binary64_number) (simp_all add: initialState_def)

lemma run_example: "run [Add 1000 example_lot, RecordUsage 1500 example_usage] = example_state"
  by (simp add: example_state_def)

lemma chemicalSchema_quantity: "chemicalSchema data \<Longrightarrow> 0 < quantity data"
  by (simp add: chemicalSchema_def binary64_hundredth)

lemma accepted_valid_quantities: "accepted op \<Longrightarrow> positive_usage op \<Longrightarrow> valid_quantities op"
  using chemicalSchema_quantity by (cases op) (auto simp: less_imp_le)

lemma accepted_valid_numbers:
  "accepted op \<Longrightarrow> positive_usage op \<Longrightarrow> quantity_is_number op \<Longrightarrow> valid_numbers op"
  using chemicalSchema_quantity by (cases op) (auto simp: less_imp_le)

lemma foldl_submit_op: "foldl submit_op s ops = foldl apply_op s (filter accepted ops)"
proof (induction ops arbitrary: s)
  case Nil
  show ?case by simp
next
  case (Cons op ops)
  then show ?case by (cases op) (simp_all add: AddChemicalForm_def)
qed

lemma foldl_submit_op_binary64:
  "foldl submit_op_binary64 s ops = foldl apply_op_binary64 s (filter accepted ops)"
proof (induction ops arbitrary: s)
  case Nil
  show ?case by simp
next
  case (Cons op ops)
  then show ?case by (cases op) (simp_all add: AddChemicalForm_def)
qed

lemma run_submit_accepted: "run_submit ops = run (filter accepted ops)"
  by (simp add: run_submit_def run_def foldl_submit_op)

lemma run_submit_binary64_accepted: "run_submit_binary64 ops = run_binary64 (filter accepted ops)"
  by (simp add: run_submit_binary64_def run_binary64_def foldl_submit_op_binary64)

lemma run_submit_snoc: "run_submit (ops @ [op]) = submit_op (run_submit ops) op"
  by (simp add: run_submit_def)

text \<open>
  C2. Start from the empty state and run any sequence of \<open>add\<close> and \<open>recordUsage\<close> operations
  in which every usage has a positive \<^verbatim>\<open>quantityUsed\<close>. Then every lot of the collection has
  \<open>0 \<le> currentBalance \<le> quantity\<close>. Moreover \<open>add\<close>, with data the lot form lets through,
  appends a lot whose balance is its quantity, and changes nothing with data the form turns
  down; a further \<open>recordUsage\<close> with a positive quantity keeps the collection's length and
  raises no lot's balance. The bounds do not depend on exact arithmetic: with every entered
  quantity a binary64 value and the difference rounded to binary64, every balance is again a
  binary64 value between 0 and the lot's quantity.
\<close>

theorem balance_stays_in_range:
  assumes "\<forall>op \<in> set ops. positive_usage op"
  shows "(\<forall>c \<in> set (chemicals (run_submit ops)). 0 \<le> currentBalance c \<and> currentBalance c \<le> quantity c)
       \<and> (\<forall>now data. chemicalSchema data \<longrightarrow>
            chemicals (run_submit (ops @ [Add now data])) = chemicals (run_submit ops)
              @ [ChemicalInput.extend data (Chemical.fields (int_toString now) (quantity data))])
       \<and> (\<forall>now data. \<not> chemicalSchema data \<longrightarrow> run_submit (ops @ [Add now data]) = run_submit ops)
       \<and> (\<forall>now u. 0 < quantityUsed u \<longrightarrow>
            length (chemicals (run_submit (ops @ [RecordUsage now u]))) = length (chemicals (run_submit ops))
            \<and> (\<forall>i < length (chemicals (run_submit ops)).
                 currentBalance (chemicals (run_submit (ops @ [RecordUsage now u])) ! i)
                   \<le> currentBalance (chemicals (run_submit ops) ! i)))
       \<and> ((\<forall>op \<in> set ops. quantity_is_number op) \<longrightarrow>
            (\<forall>c \<in> set (chemicals (run_submit_binary64 ops)).
               0 \<le> currentBalance c \<and> currentBalance c \<le> quantity c
               \<and> binary64 (currentBalance c) = currentBalance c))"
proof -
  have valid: "\<forall>op \<in> set (filter accepted ops). valid_quantities op"
    using assms by (simp add: accepted_valid_quantities)
  have inv: "\<forall>c \<in> set (chemicals (run_submit ops)). balance_in_range c"
    unfolding run_submit_accepted using valid by (rule run_in_range)
  then have range: "\<forall>c \<in> set (chemicals (run_submit ops)). 0 \<le> currentBalance c \<and> currentBalance c \<le> quantity c"
    by (simp add: balance_in_range_def)
  have add: "\<forall>now data. chemicalSchema data \<longrightarrow>
            chemicals (run_submit (ops @ [Add now data])) = chemicals (run_submit ops)
              @ [ChemicalInput.extend data (Chemical.fields (int_toString now) (quantity data))]"
    by (simp add: run_submit_snoc AddChemicalForm_def chemicals_addChemical)
  have reject: "\<forall>now data. \<not> chemicalSchema data \<longrightarrow> run_submit (ops @ [Add now data]) = run_submit ops"
    by (simp add: run_submit_snoc AddChemicalForm_def)
  have use: "\<forall>now u. 0 < quantityUsed u \<longrightarrow>
            length (chemicals (run_submit (ops @ [RecordUsage now u]))) = length (chemicals (run_submit ops))
            \<and> (\<forall>i < length (chemicals (run_submit ops)).
                 currentBalance (chemicals (run_submit (ops @ [RecordUsage now u])) ! i)
                   \<le> currentBalance (chemicals (run_submit ops) ! i))"
    using range by (simp add: run_submit_snoc chemicals_updateInventory useChemical_decreases)
  have rounded: "(\<forall>op \<in> set ops. quantity_is_number op) \<longrightarrow>
            (\<forall>c \<in> set (chemicals (run_submit_binary64 ops)).
               0 \<le> currentBalance c \<and> currentBalance c \<le> quantity c
               \<and> binary64 (currentBalance c) = currentBalance c)"
  proof
    assume "\<forall>op \<in> set ops. quantity_is_number op"
    with assms have "\<forall>op \<in> set (filter accepted ops). valid_numbers op"
      by (simp add: accepted_valid_numbers)
    then have "\<forall>c \<in> set (chemicals (run_submit_binary64 ops)). balance_is_number c"
      unfolding run_submit_binary64_accepted by (rule run_binary64_number)
    then show "\<forall>c \<in> set (chemicals (run_submit_binary64 ops)).
               0 \<le> currentBalance c \<and> currentBalance c \<le> quantity c
               \<and> binary64 (currentBalance c) = currentBalance c"
      by (simp add: balance_is_number_def)
  qed
  from range add reject use rounded show ?thesis by blast
qed

lemma chemicalSchema_examples: "chemicalSchema example_lot" "\<not> chemicalSchema negative_lot"
  by (simp_all add: chemicalSchema_def example_lot_def negative_lot_def binary64_hundredth)

text \<open>
  The form takes a quantity of \<^verbatim>\<open>0.01\<close> and turns down one of half a hundredth, one of zero
  and an empty name.
\<close>

lemma chemicalSchema_boundary:
  "chemicalSchema (example_lot\<lparr>quantity := binary64 (1 / 100)\<rparr>)"
  "\<not> chemicalSchema (example_lot\<lparr>quantity := 1 / 200\<rparr>)"
  "\<not> chemicalSchema (example_lot\<lparr>quantity := 0\<rparr>)"
  "\<not> chemicalSchema (example_lot\<lparr>name := []\<rparr>)"
  by (simp_all add: chemicalSchema_def example_lot_def binary64_hundredth)

lemma binary64_minus_5: "binary64 (- 5) = - 5"
  using binary64_posint [of 5] by (simp add: binary64_minus)

text \<open>
  A lot of 50 is added, the form turns down a lot with the quantity \<open>-5\<close>, and 20 of the
  first lot are used: the collection holds the first lot alone, and its balance, 30, is
  between 0 and 50, in exact arithmetic and in binary64.
\<close>

theorem balance_stays_in_range_witness:
  "positive_usage (Add 1000 example_lot)
   \<and> positive_usage (Add 1200 negative_lot)
   \<and> positive_usage (RecordUsage 1500 example_usage)
   \<and> quantity_is_number (Add 1000 example_lot)
   \<and> quantity_is_number (Add 1200 negative_lot)
   \<and> quantity_is_number (RecordUsage 1500 example_usage)
   \<and> chemicalSchema example_lot
   \<and> \<not> chemicalSchema negative_lot
   \<and> chemicals (run_submit_binary64 [Add 1000 example_lot, Add 1200 negative_lot, RecordUsage 1500 example_usage])
       = [ChemicalInput.extend example_lot (Chemical.fields ''1000'' 30)]
   \<and> chemicals (run_submit [Add 1000 example_lot, Add 1200 negative_lot, RecordUsage 1500 example_usage])
       = [ChemicalInput.extend example_lot (Chemical.fields ''1000'' 30)]
   \<and> 0 \<le> currentBalance (ChemicalInput.extend example_lot (Chemical.fields ''1000'' 30))
   \<and> currentBalance (ChemicalInput.extend example_lot (Chemical.fields ''1000'' 30))
       \<le> quantity (ChemicalInput.extend example_lot (Chemical.fields ''1000'' 30))"
proof -
  have ok: "\<forall>op \<in> set [Add 1000 example_lot, Add 1200 negative_lot, RecordUsage 1500 example_usage].
              positive_usage op"
    by (simp add: example_usage_def)
  have ok64: "\<forall>op \<in> set [Add 1000 example_lot, Add 1200 negative_lot, RecordUsage 1500 example_usage].
              quantity_is_number op"
    by (simp add: example_lot_def negative_lot_def binary64_50 binary64_minus_5)
  have reach: "filter accepted [Add 1000 example_lot, Add 1200 negative_lot, RecordUsage 1500 example_usage]
       = [Add 1000 example_lot, RecordUsage 1500 example_usage]"
    by (simp add: chemicalSchema_examples)
  have cs: "chemicals (run_submit [Add 1000 example_lot, Add 1200 negative_lot, RecordUsage 1500 example_usage])
       = [ChemicalInput.extend example_lot (Chemical.fields ''1000'' 30)]"
    unfolding run_submit_accepted reach by (simp add: run_example example_state_eq)
  have cs64: "chemicals (run_submit_binary64 [Add 1000 example_lot, Add 1200 negative_lot, RecordUsage 1500 example_usage])
       = [ChemicalInput.extend example_lot (Chemical.fields ''1000'' 30)]"
    unfolding run_submit_binary64_accepted reach
    by (simp add:
        run_binary64_def initialState_def addChemical_def updateInventory_binary64_def
        useChemical_binary64_def int_toString_1000 example_lot_def example_usage_def binary64_30
        ChemicalInput.defs Chemical.defs)
  show ?thesis
    using balance_stays_in_range [OF ok] ok ok64 cs cs64 chemicalSchema_examples by simp
qed

subsection \<open>C3: the filter\<close>






lemma example_chemical_fields:
  "name example_chemical = ''Chlorine''"
  "dateReceived example_chemical = ''2024-01-10''"
  "expiryDate example_chemical = ''2025-01-10''"
  "storageLocation example_chemical = ''Shelf A''"
  "quantity example_chemical = 50"
  "currentBalance example_chemical = 30"
  "chem_id example_chemical = ''1000''"
  "unit example_chemical = Liters"
  "supplier example_chemical = ''Acme''"
  "remarks example_chemical = None"
  by (simp_all add: example_chemical_def example_lot_def ChemicalInput.defs Chemical.defs)



subsection \<open>C4: the layout of the export\<close>

lemma join_Cons: "ys \<noteq> [] \<Longrightarrow> join sep (x # ys) = x @ sep @ join sep ys"
  by (cases ys) simp_all

lemma join_nested_head: "join sep (join sep (y # ys) # zs) = join sep ((y # ys) @ zs)"
proof (induction ys arbitrary: y)
  case Nil
  show ?case by simp
next
  case (Cons a ys)
  show ?case
  proof (cases zs)
    case Nil
    then show ?thesis by simp
  next
    case (Cons z zs')
    with Cons.IH [of a] show ?thesis by simp
  qed
qed

lemma join_nested: "join sep (xs @ join sep (y # ys) # zs) = join sep (xs @ (y # ys) @ zs)"
proof (induction xs)
  case Nil
  show ?case using join_nested_head [of sep y ys zs] by simp
next
  case (Cons x xs)
  then show ?case by (simp add: join_Cons)
qed

lemma chemicalHeaders_line:
  "join '','' chemicalHeaders = ''Chemical Name,Current Balance,Unit,Original Quantity,Supplier,Date Received,Expiry Date,Storage Location,Remarks''"
  by (simp add: chemicalHeaders_def)

lemma usageHeaders_line:
  "join '','' usageHeaders = ''Chemical Name,Quantity Used,Date Used,Person In Charge,Remarks''"
  by (simp add: usageHeaders_def)

lemma exportToExcel_flat:
  "exportToExcel shortest generated cs usages =
     join [CHR 0x0A]
       ([''CHEMICAL INVENTORY REPORT'', ''Generated on: '' @ generated, [], ''CURRENT INVENTORY:'',
         join '','' chemicalHeaders]
        @ map (\<lambda>lot. csvLine (chemicalRow shortest lot)) cs
        @ [[], ''USAGE HISTORY:'', join '','' usageHeaders]
        @ map (\<lambda>usage. csvLine (usageRow shortest usage)) usages)"
proof -
  let ?nl = "[CHR 0x0A]"
  let ?crows = "map (\<lambda>lot. csvLine (chemicalRow shortest lot)) cs"
  let ?urows = "map (\<lambda>usage. csvLine (usageRow shortest usage)) usages"
  let ?top = "[''CHEMICAL INVENTORY REPORT'', ''Generated on: '' @ generated, [], ''CURRENT INVENTORY:'']"
  have "exportToExcel shortest generated cs usages =
     join ?nl (?top @ join ?nl (join '','' chemicalHeaders # ?crows)
                 # [[], ''USAGE HISTORY:'', join ?nl (join '','' usageHeaders # ?urows)])"
    by (simp add: exportToExcel_def Let_def comp_def)
  also have "\<dots> = join ?nl (?top @ (join '','' chemicalHeaders # ?crows)
                 @ [[], ''USAGE HISTORY:'', join ?nl (join '','' usageHeaders # ?urows)])"
    by (rule join_nested)
  also have "\<dots> = join ?nl ((?top @ (join '','' chemicalHeaders # ?crows) @ [[], ''USAGE HISTORY:''])
                 @ join ?nl (join '','' usageHeaders # ?urows) # [])"
    by simp
  also have "\<dots> = join ?nl ((?top @ (join '','' chemicalHeaders # ?crows) @ [[], ''USAGE HISTORY:''])
                 @ (join '','' usageHeaders # ?urows) @ [])"
    by (rule join_nested)
  finally show ?thesis by simp
qed

text \<open>
  C4, as the code has it. For every lot list and usage list the exported text is the lines
  below joined by newlines: the title line, the generation timestamp, an empty line, the
  inventory section header, the column names, then one row per lot containing in order the
  name, the current balance as \<^verbatim>\<open>toString\<close> prints it (not fixed to two decimals), the unit, the
  original quantity, supplier, date received, expiry date, storage location and remark (empty
  if absent), every field value surrounded by quotes and the cells joined by commas; then an
  empty line, the usage section header, its column names and one row per usage event.
\<close>

theorem exportToExcel_layout:
  "exportToExcel shortest generated cs usages =
     join [CHR 0x0A]
       ([''CHEMICAL INVENTORY REPORT'',
         ''Generated on: '' @ generated,
         [],
         ''CURRENT INVENTORY:'',
         ''Chemical Name,Current Balance,Unit,Original Quantity,Supplier,Date Received,Expiry Date,Storage Location,Remarks'']
        @ map (\<lambda>lot. join '',''
                 [quoted (name lot),
                  quoted (Number_toString shortest (currentBalance lot)),
                  quoted (unit_string (unit lot)),
                  quoted (Number_toString shortest (quantity lot)),
                  quoted (supplier lot),
                  quoted (dateReceived lot),
                  quoted (expiryDate lot),
                  quoted (storageLocation lot),
                  quoted (or_empty (remarks lot))]) cs
        @ [[], ''USAGE HISTORY:'', ''Chemical Name,Quantity Used,Date Used,Person In Charge,Remarks'']
        @ map (\<lambda>usage. join '',''
                 [quoted (chemicalName usage),
                  quoted (Number_toString shortest (quantityUsed usage)),
                  quoted (dateUsed usage),
                  quoted (personInCharge usage),
                  quoted (or_empty (usage_remarks usage))]) usages)"
  unfolding exportToExcel_flat chemicalHeaders_line usageHeaders_line
  by (simp add: csvLine_def chemicalRow_def usageRow_def)

lemma toFixed2_30: "toFixed2 30 = ''30.00''"
  by code_simp

lemma Number_toString_30: "Number_toString (\<lambda>x. []) 30 = ''30''"
  by code_simp

lemma Number_toString_50: "Number_toString (\<lambda>x. []) 50 = ''50''"
  by code_simp

text \<open>
  The export of the example lot, whose balance is 30: the balance cell reads \<open>"30"\<close>, where
  two-decimal formatting would give \<open>"30.00"\<close>.
\<close>

theorem exportToExcel_balance_counterexample:
  "exportToExcel (\<lambda>x. []) ''1/3/2024'' [example_chemical] [] =
     join [CHR 0x0A]
       [''CHEMICAL INVENTORY REPORT'',
        ''Generated on: 1/3/2024'',
        [],
        ''CURRENT INVENTORY:'',
        ''Chemical Name,Current Balance,Unit,Original Quantity,Supplier,Date Received,Expiry Date,Storage Location,Remarks'',
        join '','' [quoted ''Chlorine'', quoted ''30'', quoted ''Liters'', quoted ''50'', quoted ''Acme'',
                   quoted ''2024-01-10'', quoted ''2025-01-10'', quoted ''Shelf A'', quoted []],
        [],
        ''USAGE HISTORY:'',
        ''Chemical Name,Quantity Used,Date Used,Person In Charge,Remarks'']
   \<and> chemicalRow (\<lambda>x. []) example_chemical ! 1 = ''30''
   \<and> spec_chemicalRow (\<lambda>x. []) example_chemical ! 1 = ''30.00''
   \<and> chemicalRow (\<lambda>x. []) example_chemical \<noteq> spec_chemicalRow (\<lambda>x. []) example_chemical"
proof -
  have row: "chemicalRow (\<lambda>x. []) example_chemical
     = [''Chlorine'', ''30'', ''Liters'', ''50'', ''Acme'', ''2024-01-10'', ''2025-01-10'', ''Shelf A'', []]"
    by (simp add: chemicalRow_def example_chemical_fields Number_toString_30 Number_toString_50
        unit_string_def or_empty_def)
  have spec: "spec_chemicalRow (\<lambda>x. []) example_chemical
     = [''Chlorine'', ''30.00'', ''Liters'', ''50'', ''Acme'', ''2024-01-10'', ''2025-01-10'', ''Shelf A'', []]"
    by (simp add: spec_chemicalRow_def example_chemical_fields toFixed2_30 Number_toString_50
        unit_string_def or_empty_def)
  have doc: "exportToExcel (\<lambda>x. []) ''1/3/2024'' [example_chemical] [] =
     join [CHR 0x0A]
       [''CHEMICAL INVENTORY REPORT'',
        ''Generated on: 1/3/2024'',
        [],
        ''CURRENT INVENTORY:'',
        ''Chemical Name,Current Balance,Unit,Original Quantity,Supplier,Date Received,Expiry Date,Storage Location,Remarks'',
        join '','' [quoted ''Chlorine'', quoted ''30'', quoted ''Liters'', quoted ''50'', quoted ''Acme'',
                   quoted ''2024-01-10'', quoted ''2025-01-10'', quoted ''Shelf A'', quoted []],
        [],
        ''USAGE HISTORY:'',
        ''Chemical Name,Quantity Used,Date Used,Person In Charge,Remarks'']"
    unfolding exportToExcel_flat chemicalHeaders_line usageHeaders_line
    by (simp add: csvLine_def row)
  show ?thesis
    unfolding doc row spec by simp
qed

subsection \<open>C5: the near-expiry boundary\<close>

lemma isNearExpiry_iff:
  "isNearExpiry P today lot \<longleftrightarrow> (\<exists>expiry. P (expiryDate lot) = Some expiry \<and> expiry \<le> today + 30 * day_ms)"
  by (simp add: isNearExpiry_def day_ms_def Let_def split: option.splits)

lemma alertsOf_flags:
  "alertsOf P shortest today lot =
     (if isNearExpiry P today lot then [name lot @ '' expires on '' @ expiryDate lot] else [])
     @ (if isLowStock lot
        then [name lot @ '' is low in stock ('' @ Number_toString shortest (currentBalance lot)
                @ '' '' @ unit_string (unit lot) @ '')'']
        else [])"
  by (simp add: alertsOf_def isNearExpiry_def isLowStock_def Let_def)

text \<open>
  C5. For every lot and every current instant \<open>today\<close> (the clock reading in milliseconds):
  the lot is flagged \<open>nearExpiry\<close> iff its expiry date parses and is at most \<open>today\<close> plus 30
  days, inclusive. So a lot expiring exactly 30 days after \<open>today\<close> is flagged and one expiring
  31 days after is not. The same holds by calendar days: if \<open>today\<close> is \<open>t\<close> milliseconds into
  the UTC day \<open>d\<close> and the expiry date is the start of a UTC day (as a date-only string
  parses), the lot is flagged for day \<open>d + 30\<close> and not for day \<open>d + 31\<close>. \<^verbatim>\<open>getAlerts\<close> pushes
  its expiry alert for a lot exactly when the lot is flagged.
\<close>

theorem isNearExpiry_boundary:
  "(isNearExpiry P today lot
      \<longleftrightarrow> (\<exists>expiry. P (expiryDate lot) = Some expiry \<and> expiry \<le> today + 30 * day_ms))
   \<and> (P (expiryDate lot) = Some (today + 30 * day_ms) \<longrightarrow> isNearExpiry P today lot)
   \<and> (P (expiryDate lot) = Some (today + 31 * day_ms) \<longrightarrow> \<not> isNearExpiry P today lot)
   \<and> (0 \<le> t \<and> t < day_ms \<and> today = d * day_ms + t \<longrightarrow>
        (P (expiryDate lot) = Some ((d + 30) * day_ms) \<longrightarrow> isNearExpiry P today lot)
      \<and> (P (expiryDate lot) = Some ((d + 31) * day_ms) \<longrightarrow> \<not> isNearExpiry P today lot))
   \<and> getAlerts P shortest today cs =
       concat (map (\<lambda>lot.
         (if isNearExpiry P today lot then [name lot @ '' expires on '' @ expiryDate lot] else [])
         @ (if isLowStock lot
            then [name lot @ '' is low in stock ('' @ Number_toString shortest (currentBalance lot)
                    @ '' '' @ unit_string (unit lot) @ '')'']
            else [])) cs)"
proof -
  have pos: "0 < day_ms" by (simp add: day_ms_def)
  have a: "P (expiryDate lot) = Some (today + 30 * day_ms) \<longrightarrow> isNearExpiry P today lot"
    by (simp add: isNearExpiry_iff)
  have b: "P (expiryDate lot) = Some (today + 31 * day_ms) \<longrightarrow> \<not> isNearExpiry P today lot"
    using pos by (auto simp: isNearExpiry_iff)
  have c: "0 \<le> t \<and> t < day_ms \<and> today = d * day_ms + t \<longrightarrow>
        (P (expiryDate lot) = Some ((d + 30) * day_ms) \<longrightarrow> isNearExpiry P today lot)
      \<and> (P (expiryDate lot) = Some ((d + 31) * day_ms) \<longrightarrow> \<not> isNearExpiry P today lot)"
    by (auto simp: isNearExpiry_iff algebra_simps)
  have g: "getAlerts P shortest today cs =
       concat (map (\<lambda>lot.
         (if isNearExpiry P today lot then [name lot @ '' expires on '' @ expiryDate lot] else [])
         @ (if isLowStock lot
            then [name lot @ '' is low in stock ('' @ Number_toString shortest (currentBalance lot)
                    @ '' '' @ unit_string (unit lot) @ '')'']
            else [])) cs)"
    by (simp add: getAlerts_def alertsOf_flags [abs_def])
  from isNearExpiry_iff [of P today lot] a b c g
  show ?thesis by blast
qed

text \<open>
  The example lot expires on 2025-01-10 (1736467200000 ms). At 2024-12-11 00:00 UTC, 30
  days before, it is flagged; at 2024-12-10 00:00, 31 days before, it is not; at 2024-12-11
  10:00, ten hours into day 20068, it is flagged, day 20098 being the expiry day.
\<close>

theorem isNearExpiry_boundary_witness:
  "example_parse (expiryDate example_chemical) = Some (1733875200000 + 30 * day_ms)
   \<and> isNearExpiry example_parse 1733875200000 example_chemical
   \<and> example_parse (expiryDate example_chemical) = Some (1733788800000 + 31 * day_ms)
   \<and> \<not> isNearExpiry example_parse 1733788800000 example_chemical
   \<and> (0::int) \<le> 36000000 \<and> 36000000 < day_ms \<and> (1733911200000::int) = 20068 * day_ms + 36000000
   \<and> example_parse (expiryDate example_chemical) = Some ((20068 + 30) * day_ms)
   \<and> isNearExpiry example_parse 1733911200000 example_chemical"
proof -
  have p30: "example_parse (expiryDate example_chemical) = Some (1733875200000 + 30 * day_ms)"
    by (simp add: example_parse_def example_chemical_fields day_ms_def)
  have p31: "example_parse (expiryDate example_chemical) = Some (1733788800000 + 31 * day_ms)"
    by (simp add: example_parse_def example_chemical_fields day_ms_def)
  have t: "(0::int) \<le> 36000000 \<and> 36000000 < day_ms \<and> (1733911200000::int) = 20068 * day_ms + 36000000"
    by (simp add: day_ms_def)
  have pd: "example_parse (expiryDate example_chemical) = Some ((20068 + 30) * day_ms)"
    by (simp add: example_parse_def example_chemical_fields day_ms_def)
  show ?thesis
    using p30 p31 t pd
      isNearExpiry_boundary [of example_parse 1733875200000 example_chemical 0 0 "\<lambda>x. []" "[]"]
      isNearExpiry_boundary [of example_parse 1733788800000 example_chemical 0 0 "\<lambda>x. []" "[]"]
      isNearExpiry_boundary [of example_parse 1733911200000 example_chemical 36000000 20068 "\<lambda>x. []" "[]"]
    by blast
qed

subsection \<open>C6: the low-stock threshold\<close>

text \<open>
  C6. For every lot, \<open>lowStock\<close> is true iff \<open>currentBalance \<le> 0.1 * quantity\<close>, and a lot whose
  balance equals \<open>0.1 * quantity\<close> is low in stock: the comparison is inclusive. The same two
  facts hold with the product as binary64 computes it; that product is not below the exact
  tenth, so a balance (a binary64 value) at or below the exact tenth of a non-negative
  quantity is low in stock there too.
\<close>

theorem isLowStock_inclusive:
  "(isLowStock lot \<longleftrightarrow> currentBalance lot \<le> (1 / 10) * quantity lot)
   \<and> (currentBalance lot = (1 / 10) * quantity lot \<longrightarrow> isLowStock lot)
   \<and> (isLowStock_binary64 lot
        \<longleftrightarrow> currentBalance lot \<le> binary64 (quantity lot * binary64 (1 / 10)))
   \<and> (currentBalance lot = binary64 (quantity lot * binary64 (1 / 10)) \<longrightarrow> isLowStock_binary64 lot)
   \<and> (0 \<le> quantity lot \<and> binary64 (currentBalance lot) = currentBalance lot
        \<and> currentBalance lot \<le> (1 / 10) * quantity lot \<longrightarrow> isLowStock_binary64 lot)"
proof -
  have exact: "(isLowStock lot \<longleftrightarrow> currentBalance lot \<le> (1 / 10) * quantity lot)
   \<and> (currentBalance lot = (1 / 10) * quantity lot \<longrightarrow> isLowStock lot)"
    by (simp add: isLowStock_def)
  have rounded: "(isLowStock_binary64 lot
        \<longleftrightarrow> currentBalance lot \<le> binary64 (quantity lot * binary64 (1 / 10)))
   \<and> (currentBalance lot = binary64 (quantity lot * binary64 (1 / 10)) \<longrightarrow> isLowStock_binary64 lot)"
    by (simp add: isLowStock_binary64_def)
  have below: "0 \<le> quantity lot \<and> binary64 (currentBalance lot) = currentBalance lot
        \<and> currentBalance lot \<le> (1 / 10) * quantity lot \<longrightarrow> isLowStock_binary64 lot"
  proof
    assume h: "0 \<le> quantity lot \<and> binary64 (currentBalance lot) = currentBalance lot
        \<and> currentBalance lot \<le> (1 / 10) * quantity lot"
    have "(1 / 10 :: rat) \<le> binary64 (1 / 10)" by (simp add: binary64_tenth)
    with h have "quantity lot * (1 / 10) \<le> quantity lot * binary64 (1 / 10)"
      by (intro mult_left_mono) simp_all
    with h have "currentBalance lot \<le> quantity lot * binary64 (1 / 10)" by simp
    then have "binary64 (currentBalance lot) \<le> binary64 (quantity lot * binary64 (1 / 10))"
      by (rule binary64_mono)
    with h show "isLowStock_binary64 lot" by (simp add: isLowStock_binary64_def)
  qed
  from exact rounded below show ?thesis by blast
qed

text \<open>
  With a quantity of 50, a balance of 5 is on the boundary and low in stock, in exact
  arithmetic and in binary64; the example lot's balance of 30 is not.
\<close>

theorem isLowStock_inclusive_witness:
  "currentBalance boundary_chemical = (1 / 10) * quantity boundary_chemical
   \<and> isLowStock boundary_chemical
   \<and> \<not> currentBalance example_chemical \<le> (1 / 10) * quantity example_chemical
   \<and> \<not> isLowStock example_chemical
   \<and> 0 \<le> quantity boundary_chemical
   \<and> binary64 (currentBalance boundary_chemical) = currentBalance boundary_chemical
   \<and> isLowStock_binary64 boundary_chemical"
proof -
  have q: "0 \<le> quantity boundary_chemical"
    by (simp add: boundary_chemical_def example_chemical_fields)
  have n: "binary64 (currentBalance boundary_chemical) = currentBalance boundary_chemical"
    using binary64_posint [of 5] by (simp add: boundary_chemical_def)
  have b: "currentBalance boundary_chemical = (1 / 10) * quantity boundary_chemical"
    by (simp add: boundary_chemical_def example_chemical_fields)
  have e: "\<not> currentBalance example_chemical \<le> (1 / 10) * quantity example_chemical"
    by (simp add: example_chemical_fields)
  show ?thesis
    using b e q n isLowStock_inclusive [of boundary_chemical] isLowStock_inclusive [of example_chemical]
    by blast
qed

subsection \<open>C7: the flow-rate formula\<close>

lemma toFixed2_value_nonneg:
  "0 \<le> x \<Longrightarrow> toFixed2_value x = of_int \<lfloor>x * 100 + 1 / 2\<rfloor> / 100"
proof -
  assume x: "0 \<le> x"
  then have "0 \<le> \<lfloor>x * 100 + 1 / 2\<rfloor>" by simp
  with x show ?thesis
    by (simp add: toFixed2_value_def toFixed2_digits_def abs_of_nonneg)
qed

lemma toFixed2_value_eval:
  "0 \<le> x \<Longrightarrow> of_int n \<le> x * 100 + 1 / 2 \<Longrightarrow> x * 100 + 1 / 2 < of_int n + 1
     \<Longrightarrow> toFixed2_value x = of_int n / 100"
  by (simp add: toFixed2_value_nonneg floor_unique)

lemma toFixed2_value_close: "0 \<le> x \<Longrightarrow> \<bar>toFixed2_value x - x\<bar> \<le> 1 / 200"
proof -
  assume x: "0 \<le> x"
  define n where "n = \<lfloor>x * 100 + 1 / 2\<rfloor>"
  have "of_int n \<le> x * 100 + 1 / 2" and "x * 100 + 1 / 2 < of_int n + 1"
    unfolding n_def by linarith+
  then have "\<bar>of_int n / 100 - x\<bar> \<le> 1 / 200"
    by linarith
  with x show ?thesis by (simp add: toFixed2_value_nonneg n_def)
qed

lemma binary64_1: "binary64 1 = 1"
proof -
  have e: "max (floor_log2 \<bar>1\<bar>) (- 1022) = 0" by code_simp
  have "binary64 1 = of_int 4503599627370496 * (1 / 4503599627370496)"
    by (rule binary64_down [OF _ e]) simp_all
  then show ?thesis by simp
qed

lemma binary64_3600: "binary64 3600 = 3600"
proof -
  have e: "max (floor_log2 \<bar>3600\<bar>) (- 1022) = 11" by code_simp
  have "binary64 3600 = of_int 7916483719987200 * (1 / 2199023255552)"
    by (rule binary64_down [OF _ e]) simp_all
  then show ?thesis by simp
qed

lemma binary64_15840: "binary64 15840 = 15840"
proof -
  have e: "max (floor_log2 \<bar>15840\<bar>) (- 1022) = 13" by code_simp
  have "binary64 15840 = of_int 8708132091985920 * (1 / 549755813888)"
    by (rule binary64_down [OF _ e]) simp_all
  then show ?thesis by simp
qed

lemma binary64_inverse_3600: "binary64 (1 / 3600) = 5124095576030431 / 18446744073709551616"
proof -
  have e: "max (floor_log2 \<bar>1 / 3600\<bar>) (- 1022) = - 12" by code_simp
  have "binary64 (1 / 3600) = of_int 5124095576030431 * (1 / 18446744073709551616)"
    by (rule binary64_down [OF _ e]) simp_all
  then show ?thesis by simp
qed

lemma binary64_product_1: "binary64 (1152921504606846975 / 1152921504606846976) = 1"
proof -
  have e: "max (floor_log2 \<bar>1152921504606846975 / 1152921504606846976\<bar>) (- 1022) = - 1"
    by code_simp
  have "binary64 (1152921504606846975 / 1152921504606846976)
          = (of_int 9007199254740991 + 1) * (1 / 9007199254740992)"
    by (rule binary64_up [OF _ e]) simp_all
  then show ?thesis by simp
qed

lemma binary64_22_5: "binary64 (22 / 5) = 2476979795053773 / 562949953421312"
proof -
  have e: "max (floor_log2 \<bar>22 / 5\<bar>) (- 1022) = 2" by code_simp
  have "binary64 (22 / 5) = (of_int 4953959590107545 + 1) * (1 / 1125899906842624)"
    by (rule binary64_up [OF _ e]) simp_all
  then show ?thesis by simp
qed

lemma binary64_idem_22_5:
  "binary64 (2476979795053773 / 562949953421312) = 2476979795053773 / 562949953421312"
proof -
  have e: "max (floor_log2 \<bar>2476979795053773 / 562949953421312\<bar>) (- 1022) = 2" by code_simp
  have "binary64 (2476979795053773 / 562949953421312)
          = of_int 4953959590107546 * (1 / 1125899906842624)"
    by (rule binary64_down [OF _ e]) simp_all
  then show ?thesis by simp
qed

lemma binary64_product_15840:
  "binary64 (557320453887098925 / 35184372088832) = 8708132091985921 / 549755813888"
proof -
  have e: "max (floor_log2 \<bar>557320453887098925 / 35184372088832\<bar>) (- 1022) = 13"
    by code_simp
  have "binary64 (557320453887098925 / 35184372088832)
          = (of_int 8708132091985920 + 1) * (1 / 549755813888)"
    by (rule binary64_up [OF _ e]) simp_all
  then show ?thesis by simp
qed

lemma toFixed2_value_22_5: "toFixed2_value (2476979795053773 / 562949953421312) = 22 / 5"
proof -
  have "toFixed2_value (2476979795053773 / 562949953421312) = of_int 440 / 100"
    by (rule toFixed2_value_eval) simp_all
  then show ?thesis by simp
qed

lemma toFixed2_value_15840: "toFixed2_value (8708132091985921 / 549755813888) = 15840"
proof -
  have "toFixed2_value (8708132091985921 / 549755813888) = of_int 1584000 / 100"
    by (rule toFixed2_value_eval) simp_all
  then show ?thesis by simp
qed

lemma binary64_211200: "binary64 211200 = 211200"
  using binary64_posint [of 211200] by simp

lemma binary64_inverse_211200:
  "binary64 (1 / 211200) = 1397480611644663 / 295147905179352825856"
proof -
  have e: "max (floor_log2 \<bar>1 / 211200\<bar>) (- 1022) = - 18" by code_simp
  have "binary64 (1 / 211200) = of_int 5589922446578652 * (1 / 1180591620717411303424)"
    by (rule binary64_down [OF _ e]) simp_all
  then show ?thesis by simp
qed

lemma binary64_product_211200:
  "binary64 (314433137620049175 / 18446744073709551616) = 1228254443828317 / 72057594037927936"
proof -
  have e: "max (floor_log2 \<bar>314433137620049175 / 18446744073709551616\<bar>) (- 1022) = - 6"
    by code_simp
  have "binary64 (314433137620049175 / 18446744073709551616)
          = of_int 4913017775313268 * (1 / 288230376151711744)"
    by (rule binary64_down [OF _ e]) simp_all
  then show ?thesis by simp
qed

lemma binary64_product_3_40:
  "binary64 (3042361440547750584062995090041 / 40564819207303340847894502572032)
     = 5404319552844595 / 72057594037927936"
proof -
  have e: "max (floor_log2 \<bar>3042361440547750584062995090041 / 40564819207303340847894502572032\<bar>)
             (- 1022) = - 4"
    by code_simp
  have "binary64 (3042361440547750584062995090041 / 40564819207303340847894502572032)
          = of_int 5404319552844595 * (1 / 72057594037927936)"
    by (rule binary64_down [OF _ e]) simp_all
  then show ?thesis by simp
qed

lemma toFixed2_value_3_40: "toFixed2_value (5404319552844595 / 72057594037927936) = 7 / 100"
proof -
  have "toFixed2_value (5404319552844595 / 72057594037927936) = of_int 7 / 100"
    by (rule toFixed2_value_eval) simp_all
  then show ?thesis by simp
qed

lemma seconds_pos: "0 < time \<Longrightarrow> 0 < binary64 (of_nat time / 100)"
proof -
  assume "0 < time"
  then have "(1 :: rat) \<le> of_nat time" by simp
  then have "(1 :: rat) / 100 \<le> of_nat time / 100" by simp
  then have "binary64 (1 / 100) \<le> binary64 (of_nat time / 100)" by (rule binary64_mono)
  then show ?thesis by (simp add: binary64_hundredth)
qed

lemma calculatedGPM_nonneg:
  "0 \<le> binary64 (binary64 (binary64 (1 / binary64 (of_nat time / 100)) * 3600) * binary64 (44 / 10))"
proof -
  have s: "0 \<le> binary64 (of_nat time / 100)" by (rule binary64_nonneg) simp
  have r: "0 \<le> binary64 (1 / binary64 (of_nat time / 100))"
    by (rule binary64_nonneg) (simp add: s)
  have p: "0 \<le> binary64 (binary64 (1 / binary64 (of_nat time / 100)) * 3600)"
    by (rule binary64_nonneg) (simp add: r)
  have c: "0 \<le> binary64 (44 / 10)" by (rule binary64_nonneg) simp
  from p c have "0 \<le> binary64 (binary64 (1 / binary64 (of_nat time / 100)) * 3600) * binary64 (44 / 10)"
    by (rule mult_nonneg_nonneg)
  then show ?thesis by (rule binary64_nonneg)
qed

lemma inverse_bounds:
  assumes "0 < q" and "q - q / 2 ^ 53 \<le> s" and "s \<le> q + q / 2 ^ 53"
  shows "1 / q * (9007199254740992 / 9007199254740993) \<le> 1 / s
       \<and> 1 / s \<le> 1 / q * (9007199254740992 / 9007199254740991 :: rat)"
proof -
  have lo: "q * (9007199254740991 / 9007199254740992) \<le> s" using assms(2) by simp
  have hi: "s \<le> q * (9007199254740993 / 9007199254740992)" using assms(3) by simp
  have s: "0 < s" using assms(1) lo by (simp add: less_le_trans [rotated])
  have "1 / s \<le> 1 / (q * (9007199254740991 / 9007199254740992))"
    using assms(1) s lo by (intro divide_left_mono) simp_all
  moreover have "1 / (q * (9007199254740993 / 9007199254740992)) \<le> 1 / s"
    using assms(1) s hi by (intro divide_left_mono) simp_all
  ultimately show ?thesis by simp
qed

lemma calculatedGPM_error:
  assumes "0 < time" and "time \<le> 2 ^ 53"
  shows "\<bar>binary64 (binary64 (binary64 (1 / binary64 (of_nat time / 100)) * 3600) * binary64 (44 / 10))
           - 1 / (of_nat time / 100) * 3600 * (44 / 10)\<bar>
         \<le> 1 / (of_nat time / 100) * 3600 * (44 / 10) / 2 ^ 50"
proof -
  define q :: rat where "q = of_nat time / 100"
  define m where "m = 1 / q"
  define s where "s = binary64 q"
  define i where "i = 1 / s"
  define r where "r = binary64 i"
  define p where "p = binary64 (r * 3600)"
  define g where "g = binary64 (p * (2476979795053773 / 562949953421312))"
  have "(1 :: rat) \<le> of_nat time" using assms(1) by simp
  then have q_lo: "1 / 100 \<le> q" by (simp add: q_def)
  have "(of_nat time :: rat) \<le> of_nat (2 ^ 53)" using assms(2) by (simp only: of_nat_le_iff)
  then have q_hi: "q \<le> 9007199254740992 / 100" by (simp add: q_def)
  have q: "0 < q" using q_lo by simp
  have m_lo: "100 / 9007199254740992 \<le> m"
    unfolding m_def using q q_hi by (simp add: field_simps)
  have es: "\<bar>s - q\<bar> \<le> q / 2 ^ 53"
    unfolding s_def using q_lo by (intro binary64_normal_error) simp
  then have "q - q / 2 ^ 53 \<le> s" and "s \<le> q + q / 2 ^ 53" by linarith+
  with q have i: "m * (9007199254740992 / 9007199254740993) \<le> i"
      "i \<le> m * (9007199254740992 / 9007199254740991)"
    unfolding m_def i_def using inverse_bounds [of q s] by blast+
  have "\<bar>r - i\<bar> \<le> i / 2 ^ 53"
    unfolding r_def using m_lo i(1) by (intro binary64_normal_error) simp
  then have r: "i - i / 2 ^ 53 \<le> r" "r \<le> i + i / 2 ^ 53" by linarith+
  have "\<bar>p - r * 3600\<bar> \<le> r * 3600 / 2 ^ 53"
    unfolding p_def using m_lo i(1) r(1) by (intro binary64_normal_error) simp
  then have p: "r * 3600 - r * 3600 / 2 ^ 53 \<le> p" "p \<le> r * 3600 + r * 3600 / 2 ^ 53"
    by linarith+
  have "\<bar>g - p * (2476979795053773 / 562949953421312)\<bar>
              \<le> p * (2476979795053773 / 562949953421312) / 2 ^ 53"
    unfolding g_def using m_lo i(1) r(1) p(1) by (intro binary64_normal_error) simp
  then have g: "p * (2476979795053773 / 562949953421312)
                  - p * (2476979795053773 / 562949953421312) / 2 ^ 53 \<le> g"
      "g \<le> p * (2476979795053773 / 562949953421312)
                  + p * (2476979795053773 / 562949953421312) / 2 ^ 53"
    by linarith+
  have "m * 3600 * (44 / 10) - m * 3600 * (44 / 10) / 2 ^ 50 \<le> g"
    using m_lo i r p g by simp
  moreover have "g \<le> m * 3600 * (44 / 10) + m * 3600 * (44 / 10) / 2 ^ 50"
    using m_lo i r p g by simp
  ultimately have "\<bar>g - m * 3600 * (44 / 10)\<bar> \<le> m * 3600 * (44 / 10) / 2 ^ 50"
    by linarith
  then show ?thesis
    unfolding g_def p_def r_def i_def s_def m_def q_def by (simp add: binary64_22_5)
qed

lemma calculateGPM_binary64_pos:
  "0 < time \<Longrightarrow> calculateGPM_binary64 time =
     Some (binary64 (toFixed2_value
       (binary64 (binary64 (binary64 (1 / binary64 (of_nat time / 100)) * 3600) * binary64 (44 / 10)))))"
  using seconds_pos [of time] by (simp add: calculateGPM_binary64_def js_div_def Let_def)

lemma calculateGPM_binary64_360000: "calculateGPM_binary64 360000 = Some (binary64 (44 / 10))"
  by (simp add: calculateGPM_binary64_def js_div_def Let_def binary64_3600 binary64_inverse_3600
      binary64_product_1 binary64_22_5 binary64_idem_22_5 toFixed2_value_22_5)

lemma calculateGPM_binary64_100: "calculateGPM_binary64 100 = Some 15840"
  by (simp add: calculateGPM_binary64_def js_div_def Let_def binary64_1 binary64_3600
      binary64_22_5 binary64_product_15840 toFixed2_value_15840 binary64_15840)

lemma calculateGPM_binary64_0: "calculateGPM_binary64 0 = Some 0"
  by (simp add: calculateGPM_binary64_def)

text \<open>
  C7. The flow-rate computation gives 0 at 0 centiseconds, 4.4 at 360000 and 15840 at 100,
  where \<open>4.4\<close> is the number the literal denotes, the binary64 value of \<open>44/10\<close>. For every
  nonzero elapsed time no division by zero is evaluated and the result is
  \<open>(1 / (time / 100)) * 3600 * 4.4\<close>, each operation rounded to binary64 as JavaScript does,
  rounded to two decimal places: it is the number that a numeral of \<open>n\<close> hundredths denotes,
  and these \<open>n\<close> hundredths are at most half a hundredth away from the product. As long as
  the counter is at most \<open>2^53\<close>, where a binary64 counter stops counting, the product
  differs from the formula in exact arithmetic by at most its \<open>2^-50\<close>th part.
\<close>

theorem calculateGPM_values:
  "calculateGPM_binary64 0 = Some 0
   \<and> calculateGPM_binary64 360000 = Some (binary64 (44 / 10))
   \<and> calculateGPM_binary64 100 = Some 15840
   \<and> (0 < time \<longrightarrow>
         calculateGPM_binary64 time =
           Some (binary64 (toFixed2_value
             (binary64 (binary64 (binary64 (1 / binary64 (of_nat time / 100)) * 3600) * binary64 (44 / 10)))))
       \<and> (\<exists>n :: nat. calculateGPM_binary64 time = Some (binary64 (of_nat n / 100))
             \<and> \<bar>of_nat n / 100
                 - binary64 (binary64 (binary64 (1 / binary64 (of_nat time / 100)) * 3600) * binary64 (44 / 10))\<bar>
                 \<le> 1 / 200)
       \<and> (time \<le> 2 ^ 53 \<longrightarrow>
             \<bar>binary64 (binary64 (binary64 (1 / binary64 (of_nat time / 100)) * 3600) * binary64 (44 / 10))
                - 1 / (of_nat time / 100) * 3600 * (44 / 10)\<bar>
               \<le> 1 / (of_nat time / 100) * 3600 * (44 / 10) / 2 ^ 50))"
proof -
  define g :: rat
    where "g = binary64 (binary64 (binary64 (1 / binary64 (of_nat time / 100)) * 3600) * binary64 (44 / 10))"
  have g: "0 \<le> g" unfolding g_def by (rule calculatedGPM_nonneg)
  have general: "0 < time \<longrightarrow>
         calculateGPM_binary64 time = Some (binary64 (toFixed2_value g))
       \<and> (\<exists>n :: nat. calculateGPM_binary64 time = Some (binary64 (of_nat n / 100))
             \<and> \<bar>of_nat n / 100 - g\<bar> \<le> 1 / 200)
       \<and> (time \<le> 2 ^ 53 \<longrightarrow>
             \<bar>g - 1 / (of_nat time / 100) * 3600 * (44 / 10)\<bar>
               \<le> 1 / (of_nat time / 100) * 3600 * (44 / 10) / 2 ^ 50)"
  proof
    assume t: "0 < time"
    have e: "time \<le> 2 ^ 53 \<longrightarrow>
             \<bar>g - 1 / (of_nat time / 100) * 3600 * (44 / 10)\<bar>
               \<le> 1 / (of_nat time / 100) * 3600 * (44 / 10) / 2 ^ 50"
      unfolding g_def using t by (blast intro: calculatedGPM_error)
    have v: "calculateGPM_binary64 time = Some (binary64 (toFixed2_value g))"
      unfolding g_def using t by (rule calculateGPM_binary64_pos)
    have n: "toFixed2_value g = of_nat (toFixed2_digits g) / 100"
      using g by (simp add: toFixed2_value_def)
    from toFixed2_value_close [OF g] n
    have c: "\<bar>of_nat (toFixed2_digits g) / 100 - g\<bar> \<le> 1 / 200" by simp
    from v n have "calculateGPM_binary64 time = Some (binary64 (of_nat (toFixed2_digits g) / 100))"
      by simp
    with c have "\<exists>n :: nat. calculateGPM_binary64 time = Some (binary64 (of_nat n / 100))
             \<and> \<bar>of_nat n / 100 - g\<bar> \<le> 1 / 200"
      by blast
    with v e show "calculateGPM_binary64 time = Some (binary64 (toFixed2_value g))
       \<and> (\<exists>n :: nat. calculateGPM_binary64 time = Some (binary64 (of_nat n / 100))
             \<and> \<bar>of_nat n / 100 - g\<bar> \<le> 1 / 200)
       \<and> (time \<le> 2 ^ 53 \<longrightarrow>
             \<bar>g - 1 / (of_nat time / 100) * 3600 * (44 / 10)\<bar>
               \<le> 1 / (of_nat time / 100) * 3600 * (44 / 10) / 2 ^ 50)"
      by blast
  qed
  from calculateGPM_binary64_0 calculateGPM_binary64_360000 calculateGPM_binary64_100 general
  show ?thesis unfolding g_def by blast
qed

text \<open>
  At 21120000 centiseconds the formula is \<open>3/40 = 0.075\<close> in exact arithmetic, half-way
  between two numerals. The product as binary64 computes it is just below, so the result is
  \<open>0.07\<close>, the binary64 value of \<open>7/100\<close>.
\<close>

theorem calculateGPM_values_witness:
  "(0 :: nat) < 21120000
   \<and> (21120000 :: nat) \<le> 2 ^ 53
   \<and> calculateGPM_binary64 21120000 = Some (binary64 (7 / 100))
   \<and> binary64 (binary64 (binary64 (1 / binary64 (of_nat 21120000 / 100)) * 3600) * binary64 (44 / 10))
       = 5404319552844595 / 72057594037927936
   \<and> (5404319552844595 / 72057594037927936 :: rat) < 3 / 40
   \<and> 1 / (of_nat 21120000 / 100) * 3600 * (44 / 10) = (3 / 40 :: rat)
   \<and> \<bar>5404319552844595 / 72057594037927936 - 3 / 40 :: rat\<bar> \<le> 3 / 40 / 2 ^ 50"
proof -
  have t: "(0 :: nat) < 21120000" by simp
  have g: "binary64 (binary64 (binary64 (1 / binary64 (of_nat 21120000 / 100)) * 3600) * binary64 (44 / 10))
       = 5404319552844595 / 72057594037927936"
    by (simp add: binary64_211200 binary64_inverse_211200 binary64_product_211200 binary64_22_5
        binary64_product_3_40)
  from calculateGPM_values [of 21120000] t
  have "calculateGPM_binary64 21120000 =
           Some (binary64 (toFixed2_value
             (binary64 (binary64 (binary64 (1 / binary64 (of_nat 21120000 / 100)) * 3600) * binary64 (44 / 10)))))"
    by blast
  then have "calculateGPM_binary64 21120000 = Some (binary64 (7 / 100))"
    by (simp only: g toFixed2_value_3_40)
  with t g show ?thesis by simp
qed

subsection \<open>C8: sorting is idempotent\<close>

lemma insert_by_sorted_id:
  "sorted_wrt (cmp_le cmp) (x # xs) \<Longrightarrow> insert_by cmp x xs = x # xs"
  by (cases xs) (simp_all add: cmp_le_def)

lemma Array_sort_Cons: "Array_sort cmp (x # xs) = insert_by cmp x (Array_sort cmp xs)"
  by (simp add: Array_sort_def)

lemma Array_sort_sorted_id:
  "sorted_wrt (cmp_le cmp) xs \<Longrightarrow> Array_sort cmp xs = xs"
proof (induction xs)
  case Nil
  show ?case by (simp add: Array_sort_def)
next
  case (Cons x xs)
  from Cons.prems have "sorted_wrt (cmp_le cmp) xs" by simp
  with Cons.IH have "Array_sort cmp xs = xs" by simp
  with Cons.prems show ?case by (simp add: Array_sort_Cons insert_by_sorted_id)
qed

lemma set_insert_by: "set (insert_by cmp x xs) = insert x (set xs)"
  by (induction xs) auto

lemma length_insert_by: "length (insert_by cmp x xs) = Suc (length xs)"
  by (induction xs) auto

lemma set_Array_sort: "set (Array_sort cmp xs) = set xs"
  by (induction xs) (simp_all add: Array_sort_def set_insert_by)

lemma length_Array_sort: "length (Array_sort cmp xs) = length xs"
  by (induction xs) (simp_all add: Array_sort_def length_insert_by)

lemma sorted_insert_by:
  assumes total: "\<And>a b. cmp_le cmp a b \<or> cmp_le cmp b a"
    and trans: "\<And>a b c. cmp_le cmp a b \<Longrightarrow> cmp_le cmp b c \<Longrightarrow> cmp_le cmp a c"
  shows "sorted_wrt (cmp_le cmp) xs \<Longrightarrow> sorted_wrt (cmp_le cmp) (insert_by cmp x xs)"
proof (induction xs)
  case Nil
  show ?case by simp
next
  case (Cons y ys)
  show ?case
  proof (cases "cmp x y \<le> 0")
    case True
    then have xy: "cmp_le cmp x y" by (simp add: cmp_le_def)
    with Cons.prems trans have "\<forall>z \<in> set ys. cmp_le cmp x z" by auto
    with True xy Cons.prems show ?thesis by simp
  next
    case False
    then have "cmp_le cmp y x" using total [of x y] by (simp add: cmp_le_def)
    with False Cons show ?thesis by (auto simp: set_insert_by)
  qed
qed

lemma sorted_Array_sort:
  assumes total: "\<And>a b. cmp_le cmp a b \<or> cmp_le cmp b a"
    and trans: "\<And>a b c. cmp_le cmp a b \<Longrightarrow> cmp_le cmp b c \<Longrightarrow> cmp_le cmp a c"
  shows "sorted_wrt (cmp_le cmp) (Array_sort cmp xs)"
proof (induction xs)
  case Nil
  show ?case by (simp add: Array_sort_def)
next
  case (Cons x xs)
  then show ?case
    by (simp add: Array_sort_Cons sorted_insert_by [OF total trans])
qed

lemma field_less_trans: "field_less k a b \<Longrightarrow> field_less k b c \<Longrightarrow> field_less k a c"
  by (cases k) auto

lemma field_less_asym: "field_less k a b \<Longrightarrow> \<not> field_less k b a"
  by (cases k) auto

lemma field_less_negtrans: "\<not> field_less k a b \<Longrightarrow> \<not> field_less k b c \<Longrightarrow> \<not> field_less k a c"
  by (cases k) auto

lemma compare_le_iff:
  "cmp_le (compareChemicals k d) a b \<longleftrightarrow> (if d = Asc then \<not> field_less k b a else \<not> field_less k a b)"
  using field_less_asym [of k a b] field_less_asym [of k b a]
  by (auto simp: cmp_le_def compareChemicals_def)

lemma compare_total: "cmp_le (compareChemicals k d) a b \<or> cmp_le (compareChemicals k d) b a"
  using field_less_asym [of k a b] by (auto simp: compare_le_iff)

lemma compare_trans:
  "cmp_le (compareChemicals k d) a b \<Longrightarrow> cmp_le (compareChemicals k d) b c
     \<Longrightarrow> cmp_le (compareChemicals k d) a c"
  using field_less_negtrans [of k c b a] field_less_negtrans [of k a b c]
  by (auto simp: compare_le_iff split: if_splits)

text \<open>
  C8. Sorting is idempotent: for every lot list, sort key (any field of a lot but the
  optional remark) and sort direction, the sorted list is in the comparator's order, sorting
  it again by the same key and direction gives the same sequence, and any list that is
  already in that order is returned as it is. The sort keeps the lots: the same set of lots,
  as many as before.
\<close>

theorem sortedChemicals_idempotent:
  "sortedChemicals k d (sortedChemicals k d cs) = sortedChemicals k d cs
   \<and> sorted_wrt (\<lambda>a b. compareChemicals k d a b \<le> 0) (sortedChemicals k d cs)
   \<and> (sorted_wrt (\<lambda>a b. compareChemicals k d a b \<le> 0) cs \<longrightarrow> sortedChemicals k d cs = cs)
   \<and> set (sortedChemicals k d cs) = set cs
   \<and> length (sortedChemicals k d cs) = length cs"
proof -
  have le: "(\<lambda>a b. compareChemicals k d a b \<le> 0) = cmp_le (compareChemicals k d)"
    by (simp add: cmp_le_def [abs_def])
  have s: "sorted_wrt (cmp_le (compareChemicals k d)) (sortedChemicals k d cs)"
    unfolding sortedChemicals_def
    by (rule sorted_Array_sort) (rule compare_total, rule compare_trans)
  then have i: "sortedChemicals k d (sortedChemicals k d cs) = sortedChemicals k d cs"
    unfolding sortedChemicals_def by (rule Array_sort_sorted_id)
  have c: "sorted_wrt (cmp_le (compareChemicals k d)) cs \<longrightarrow> sortedChemicals k d cs = cs"
    unfolding sortedChemicals_def by (simp add: Array_sort_sorted_id)
  have m: "set (sortedChemicals k d cs) = set cs \<and> length (sortedChemicals k d cs) = length cs"
    unfolding sortedChemicals_def by (simp add: set_Array_sort length_Array_sort)
  from s i c m show ?thesis unfolding le by simp
qed

lemma compare_examples:
  "compareChemicals SortName Asc acid_chemical example_chemical = - 1"
  "compareChemicals SortName Asc example_chemical acid_chemical = 1"
  "compareChemicals SortCurrentBalance Desc acid_chemical example_chemical = 1"
  "compareChemicals SortCurrentBalance Desc example_chemical acid_chemical = - 1"
  by (simp_all add: compareChemicals_def acid_chemical_def example_chemical_fields)

text \<open>
  Two lots: by name ascending, Acetic acid comes before Chlorine, and the sorted pair sorts to
  itself; by balance descending, Chlorine (30) comes before Acetic acid (1).
\<close>

theorem sortedChemicals_idempotent_witness:
  "sortedChemicals SortName Asc [example_chemical, acid_chemical] = [acid_chemical, example_chemical]
   \<and> sorted_wrt (\<lambda>a b. compareChemicals SortName Asc a b \<le> 0) [acid_chemical, example_chemical]
   \<and> sortedChemicals SortName Asc [acid_chemical, example_chemical] = [acid_chemical, example_chemical]
   \<and> sortedChemicals SortCurrentBalance Desc [acid_chemical, example_chemical]
       = [example_chemical, acid_chemical]"
proof -
  have a: "sortedChemicals SortName Asc [example_chemical, acid_chemical] = [acid_chemical, example_chemical]"
    by (simp add: sortedChemicals_def Array_sort_def compare_examples)
  have b: "sorted_wrt (\<lambda>a b. compareChemicals SortName Asc a b \<le> 0) [acid_chemical, example_chemical]"
    by (simp add: compare_examples)
  have c: "sortedChemicals SortCurrentBalance Desc [acid_chemical, example_chemical]
       = [example_chemical, acid_chemical]"
    by (simp add: sortedChemicals_def Array_sort_def compare_examples)
  show ?thesis
    using a b c sortedChemicals_idempotent [of SortName Asc "[acid_chemical, example_chemical]"]
    by simp
qed

subsection \<open>C10: the mean flow-rate never divides by zero\<close>

lemma foldl_gpm_sum: "foldl (\<lambda>sum reading. sum + gpm reading) a flowLog = a + sum_list (map gpm flowLog)"
  by (induction flowLog arbitrary: a) simp_all

text \<open>
  C10. The mean flow-rate of the admin report is 0 for an empty reading list; for a non-empty
  list it is the sum of the readings' \<^verbatim>\<open>gpm\<close> values divided by the number of readings, which
  is then not zero. The division is never taken with a zero divisor: the result is never
  \<open>None\<close>.
\<close>

theorem averageGPM_safe:
  "averageGPM [] = Some 0
   \<and> (flowLog \<noteq> [] \<longrightarrow>
         (of_nat (length flowLog) :: rat) \<noteq> 0
       \<and> averageGPM flowLog = js_div (sum_list (map gpm flowLog)) (of_nat (length flowLog))
       \<and> averageGPM flowLog = Some (sum_list (map gpm flowLog) / of_nat (length flowLog)))
   \<and> averageGPM flowLog \<noteq> None"
  by (simp add: averageGPM_def js_div_def foldl_gpm_sum)

text \<open>Two readings of 4.4 and 8.8 average to 6.6.\<close>

theorem averageGPM_safe_witness:
  "example_readings \<noteq> [] \<and> averageGPM example_readings = Some (66 / 10)"
proof -
  have n: "example_readings \<noteq> []" by (simp add: example_readings_def)
  have s: "sum_list (map gpm example_readings) / of_nat (length example_readings) = 66 / 10"
    by (simp add: example_readings_def)
  from averageGPM_safe [of example_readings] n
  have "averageGPM example_readings
          = Some (sum_list (map gpm example_readings) / of_nat (length example_readings))"
    by blast
  then have "averageGPM example_readings = Some (66 / 10)"
    by (simp only: s)
  with n show ?thesis by blast
qed

end
